theory Spec2Isabelle
  imports Complex_Main
begin

section \<open>JavaScript strings\<close>

text \<open>
  A JavaScript string is modelled as a \<^typ>\<open>string\<close>: a list of characters with
  code points below 256 (Latin-1). Text outside that range is outside the model. The
  functions below are the string methods the source calls, with the results JavaScript
  gives on such strings.
\<close>

definition lowerCaseChar :: "char \<Rightarrow> char" where
  "lowerCaseChar c =
     (let n = (of_char c :: int) in
      if (65 \<le> n \<and> n \<le> 90) \<or> (192 \<le> n \<and> n \<le> 222 \<and> n \<noteq> 215)
      then char_of (n + 32) else c)"

definition upperCaseChar :: "char \<Rightarrow> char" where
  "upperCaseChar c =
     (let n = (of_char c :: int) in
      if (97 \<le> n \<and> n \<le> 122) \<or> (224 \<le> n \<and> n \<le> 254 \<and> n \<noteq> 247)
      then char_of (n - 32) else c)"

definition toLowerCase :: "string \<Rightarrow> string" where
  "toLowerCase s = map lowerCaseChar s"

text \<open>White space and line terminators, as \<^verbatim>\<open>trim\<close> and the pattern \<^verbatim>\<open>\s\<close> read them:
  tab, line feed, vertical tab, form feed, carriage return, space, no-break space.\<close>

definition isWhiteSpace :: "char \<Rightarrow> bool" where
  "isWhiteSpace c = (let n = (of_char c :: int) in (9 \<le> n \<and> n \<le> 13) \<or> n = 32 \<or> n = 160)"

definition isLineTerminator :: "char \<Rightarrow> bool" where
  "isLineTerminator c = (let n = (of_char c :: int) in n = 10 \<or> n = 13)"

definition isDigit :: "char \<Rightarrow> bool" where
  "isDigit c = (let n = (of_char c :: int) in 48 \<le> n \<and> n \<le> 57)"

definition isWordChar :: "char \<Rightarrow> bool" where
  "isWordChar c =
     (let n = (of_char c :: int) in
      (48 \<le> n \<and> n \<le> 57) \<or> (65 \<le> n \<and> n \<le> 90) \<or> n = 95 \<or> (97 \<le> n \<and> n \<le> 122))"

definition trimStart :: "string \<Rightarrow> string" where
  "trimStart s = dropWhile isWhiteSpace s"

definition trim :: "string \<Rightarrow> string" where
  "trim s = rev (dropWhile isWhiteSpace (rev (dropWhile isWhiteSpace s)))"

definition startsWith :: "string \<Rightarrow> string \<Rightarrow> bool" where
  "startsWith s p = (take (length p) s = p)"

fun includesStr :: "string \<Rightarrow> string \<Rightarrow> bool" where
  "includesStr [] p = (p = [])"
| "includesStr (x # xs) p = (startsWith (x # xs) p \<or> includesStr xs p)"

fun indexOfFrom :: "nat \<Rightarrow> string \<Rightarrow> string \<Rightarrow> nat option" where
  "indexOfFrom i [] p = (if p = [] then Some i else None)"
| "indexOfFrom i (x # xs) p = (if startsWith (x # xs) p then Some i else indexOfFrom (Suc i) xs p)"

definition indexOf :: "string \<Rightarrow> string \<Rightarrow> nat option" where
  "indexOf s p = indexOfFrom 0 s p"

text \<open>\<^verbatim>\<open>s.split(sep)\<close> for a non-empty separator: the pieces between successive,
  non-overlapping occurrences of the separator, found from the left.\<close>

function splitAcc :: "string \<Rightarrow> string \<Rightarrow> string \<Rightarrow> string list" where
  "splitAcc sep acc s =
     (if s = [] then [rev acc]
      else if sep \<noteq> [] \<and> startsWith s sep then rev acc # splitAcc sep [] (drop (length sep) s)
      else splitAcc sep (hd s # acc) (tl s))"
  by pat_completeness auto
termination
  by (relation "measure (\<lambda>(sep, acc, s). length s)") auto

definition split :: "string \<Rightarrow> string \<Rightarrow> string list" where
  "split s sep = splitAcc sep [] s"

text \<open>\<^verbatim>\<open>s.split(/\W+/)\<close>: the pieces between maximal runs of non-word characters.\<close>

function splitNonWordAcc :: "string \<Rightarrow> string \<Rightarrow> string list" where
  "splitNonWordAcc acc [] = [rev acc]"
| "splitNonWordAcc acc (c # cs) =
     (if isWordChar c then splitNonWordAcc (c # acc) cs
      else rev acc # splitNonWordAcc [] (dropWhile (\<lambda>x. \<not> isWordChar x) cs))"
  by pat_completeness auto
termination
  by (relation "measure (\<lambda>(acc, s). length s)")
     (auto simp: less_Suc_eq_le length_dropWhile_le)

definition splitNonWord :: "string \<Rightarrow> string list" where
  "splitNonWord s = splitNonWordAcc [] s"

section \<open>Regular expressions\<close>

text \<open>
  The patterns of the source are written as terms of \<open>rx\<close>, and matched by a backtracking
  matcher that tries the alternatives in the order ECMAScript does: the left branch of
  an alternation first, one more iteration of a star before leaving it. The constructor
  \<open>Prog n\<close> is not a pattern of the source: the matcher puts it after the body of a
  star, where it rejects an iteration that consumed nothing.
\<close>

datatype citem = CChr char | CRange char char | CWord | CSpace | CDigit

datatype rx =
    Chr char
  | Any
  | Cls bool "citem list"
  | Eps
  | Seq rx rx
  | Alt rx rx
  | Star rx
  | Bol
  | WordB
  | Prog nat

fun lit :: "string \<Rightarrow> rx" where
  "lit [] = Eps"
| "lit [c] = Chr c"
| "lit (c # cs) = Seq (Chr c) (lit cs)"

fun seqs :: "rx list \<Rightarrow> rx" where
  "seqs [] = Eps"
| "seqs [r] = r"
| "seqs (r # rs) = Seq r (seqs rs)"

fun alts :: "rx list \<Rightarrow> rx" where
  "alts [] = Eps"
| "alts [r] = r"
| "alts (r # rs) = Alt r (alts rs)"

definition Plus :: "rx \<Rightarrow> rx" where
  "Plus r = Seq r (Star r)"

definition Opt :: "rx \<Rightarrow> rx" where
  "Opt r = Alt r Eps"

text \<open>Characters are compared after \<open>upperCaseChar\<close> when the flag \<^verbatim>\<open>i\<close> is set.\<close>

definition eqChar :: "bool \<Rightarrow> char \<Rightarrow> char \<Rightarrow> bool" where
  "eqChar ic a b = (if ic then upperCaseChar a = upperCaseChar b else a = b)"

definition inRange :: "char \<Rightarrow> char \<Rightarrow> char \<Rightarrow> bool" where
  "inRange a b c = ((of_char a :: int) \<le> of_char c \<and> (of_char c :: int) \<le> of_char b)"

fun citemMatch :: "bool \<Rightarrow> citem \<Rightarrow> char \<Rightarrow> bool" where
  "citemMatch ic (CChr a) c = eqChar ic a c"
| "citemMatch ic (CRange a b) c =
     (inRange a b c \<or> (ic \<and> (inRange a b (upperCaseChar c) \<or> inRange a b (lowerCaseChar c))))"
| "citemMatch ic CWord c = isWordChar c"
| "citemMatch ic CSpace c = isWhiteSpace c"
| "citemMatch ic CDigit c = isDigit c"

definition clsMatch :: "bool \<Rightarrow> bool \<Rightarrow> citem list \<Rightarrow> char \<Rightarrow> bool" where
  "clsMatch ic neg items c = (list_ex (\<lambda>it. citemMatch ic it c) items \<noteq> neg)"

definition isWordOpt :: "char option \<Rightarrow> bool" where
  "isWordOpt p = (case p of None \<Rightarrow> False | Some c \<Rightarrow> isWordChar c)"

definition nextChar :: "string \<Rightarrow> char option" where
  "nextChar s = (case s of [] \<Rightarrow> None | c # cs \<Rightarrow> Some c)"

fun wrx :: "rx \<Rightarrow> nat" where
  "wrx (Seq a b) = Suc (wrx a + wrx b)"
| "wrx (Alt a b) = Suc (wrx a + wrx b)"
| "wrx (Star a) = Suc (Suc (wrx a))"
| "wrx r = 1"

fun blocks :: "rx \<Rightarrow> nat \<Rightarrow> bool" where
  "blocks (Prog n) l = (\<not> l < n)"
| "blocks r l = False"

fun weight :: "rx list \<Rightarrow> nat \<Rightarrow> nat" where
  "weight [] l = 0"
| "weight (r # k) l = wrx r + (if blocks r l then 0 else weight k l)"

text \<open>\<open>rxm ic k p s\<close>: match the patterns \<open>k\<close> one after the other at the front of \<open>s\<close>,
  the character before \<open>s\<close> being \<open>p\<close> (\<open>None\<close> at the start of the input); the result
  is what is left of \<open>s\<close> after the first match in priority order.\<close>

function rxm :: "bool \<Rightarrow> rx list \<Rightarrow> char option \<Rightarrow> string \<Rightarrow> string option" where
  "rxm ic [] p s = Some s"
| "rxm ic (Chr c # k) p s =
     (case s of [] \<Rightarrow> None | x # xs \<Rightarrow> if eqChar ic c x then rxm ic k (Some x) xs else None)"
| "rxm ic (Any # k) p s =
     (case s of [] \<Rightarrow> None | x # xs \<Rightarrow> if isLineTerminator x then None else rxm ic k (Some x) xs)"
| "rxm ic (Cls neg items # k) p s =
     (case s of [] \<Rightarrow> None | x # xs \<Rightarrow> if clsMatch ic neg items x then rxm ic k (Some x) xs else None)"
| "rxm ic (Eps # k) p s = rxm ic k p s"
| "rxm ic (Seq a b # k) p s = rxm ic (a # b # k) p s"
| "rxm ic (Alt a b # k) p s =
     (case rxm ic (a # k) p s of Some r \<Rightarrow> Some r | None \<Rightarrow> rxm ic (b # k) p s)"
| "rxm ic (Star a # k) p s =
     (case rxm ic (a # Prog (length s) # Star a # k) p s of
        Some r \<Rightarrow> Some r
      | None \<Rightarrow> rxm ic k p s)"
| "rxm ic (Prog n # k) p s = (if length s < n then rxm ic k p s else None)"
| "rxm ic (Bol # k) p s = (if p = None then rxm ic k p s else None)"
| "rxm ic (WordB # k) p s =
     (if isWordOpt p \<noteq> isWordOpt (nextChar s) then rxm ic k p s else None)"
  by pat_completeness auto
termination
  by (relation "measures [\<lambda>(ic, k, p, s). length s, \<lambda>(ic, k, p, s). weight k (length s)]")
     auto

text \<open>The first match of \<open>r\<close> in \<open>s\<close>, searching from the left: the text before it, the
  matched text and the text after it.\<close>

fun search :: "bool \<Rightarrow> rx \<Rightarrow> char option \<Rightarrow> string \<Rightarrow> (string \<times> string \<times> string) option" where
  "search ic r p [] =
     (case rxm ic [r] p [] of Some rest \<Rightarrow> Some ([], [], []) | None \<Rightarrow> None)"
| "search ic r p (x # xs) =
     (case rxm ic [r] p (x # xs) of
        Some rest \<Rightarrow> Some ([], take (length (x # xs) - length rest) (x # xs), rest)
      | None \<Rightarrow>
          (case search ic r (Some x) xs of
             None \<Rightarrow> None
           | Some (pre, mt, rest) \<Rightarrow> Some (x # pre, mt, rest)))"

definition test :: "bool \<Rightarrow> rx \<Rightarrow> string \<Rightarrow> bool" where
  "test ic r s = (search ic r None s \<noteq> None)"

text \<open>\<^verbatim>\<open>s.match(r)\<close> for a pattern without the flag \<^verbatim>\<open>g\<close>: the matched text.\<close>

definition matchFirst :: "bool \<Rightarrow> rx \<Rightarrow> string \<Rightarrow> string option" where
  "matchFirst ic r s = (case search ic r None s of None \<Rightarrow> None | Some (pre, mt, rest) \<Rightarrow> Some mt)"

text \<open>\<^verbatim>\<open>s.replace(r, ...)\<close> without the flag \<^verbatim>\<open>g\<close>: the first match is replaced. The
  replacement is a function of the matched text.\<close>

definition replaceFirst :: "bool \<Rightarrow> rx \<Rightarrow> (string \<Rightarrow> string) \<Rightarrow> string \<Rightarrow> string" where
  "replaceFirst ic r f s =
     (case search ic r None s of None \<Rightarrow> s | Some (pre, mt, rest) \<Rightarrow> pre @ f mt @ rest)"

text \<open>With the flag \<^verbatim>\<open>g\<close>: every match, found from the left, the search resuming where
  the previous match ended (one character further after an empty match).\<close>

function replaceFrom :: "bool \<Rightarrow> rx \<Rightarrow> (string \<Rightarrow> string) \<Rightarrow> char option \<Rightarrow> string \<Rightarrow> string" where
  "replaceFrom ic r f p s =
     (case rxm ic [r] p s of
        None \<Rightarrow> (case s of [] \<Rightarrow> [] | x # xs \<Rightarrow> x # replaceFrom ic r f (Some x) xs)
      | Some rest \<Rightarrow>
          (let mt = take (length s - length rest) s in
           if mt = [] then
             (case s of [] \<Rightarrow> f [] | x # xs \<Rightarrow> f [] @ x # replaceFrom ic r f (Some x) xs)
           else f mt @ replaceFrom ic r f (Some (last mt)) rest))"
  by pat_completeness auto
termination
  by (relation "measure (\<lambda>(ic, r, f, p, s). length s)") auto

definition replaceAll :: "bool \<Rightarrow> rx \<Rightarrow> (string \<Rightarrow> string) \<Rightarrow> string \<Rightarrow> string" where
  "replaceAll ic r f s = replaceFrom ic r f None s"

subsection \<open>The first character of a match\<close>





section \<open>Errors and names in patterns\<close>

datatype js_error = SyntaxError | TypeError | Error string

text \<open>
  The source builds some patterns by putting a persona's name into the pattern's text.
  A name without syntax characters stands for itself there. On any other name the
  model takes the \<^verbatim>\<open>RegExp\<close> constructor to throw a \<^verbatim>\<open>SyntaxError\<close>, as JavaScript does when,
  for example, a parenthesis of the name has no partner; names with syntax characters
  that JavaScript accepts as patterns of a wider meaning are outside the model.
\<close>

definition isSyntaxCharacter :: "char \<Rightarrow> bool" where
  "isSyntaxCharacter c = (c \<in> set ''^$.*+?()[]{}|'' \<or> c = CHR 0x5C)"

definition nameRx :: "string \<Rightarrow> js_error + rx" where
  "nameRx nm = (if list_ex isSyntaxCharacter nm then Inl SyntaxError else Inr (lit nm))"

section \<open>Conversation context\<close>

datatype role = RoleUser | RoleAssistant | RoleSystem

record HistoryEntry =
  role :: role
  content :: string
  name :: "string option"

record ConversationContext =
  turn :: nat
  lastAgent :: "string option"
  userMessage :: "string option"
  lastUserMessage :: "string option"
  messageHistory :: "HistoryEntry list"
  directlyAddressed :: bool

record AgentResponse =
  agent :: string
  message :: string

text \<open>
  \<^verbatim>\<open>Math.random()\<close> is global state. The model threads the sequence of its future
  values: a call reads the first and leaves the others. The values, and the numbers
  computed from them, are idealised as rationals.
\<close>

type_synonym rnd = "nat \<Rightarrow> rat"

definition random :: "rnd \<Rightarrow> rat" where
  "random rs = rs 0"

definition advance :: "rnd \<Rightarrow> rnd" where
  "advance rs = (\<lambda>n. rs (Suc n))"

section \<open>ResponseFormatter\<close>

definition newline :: char where
  "newline = CHR 0x0A"

definition blankLine :: string where
  "blankLine = [newline, newline]"

definition firstNameOf :: "string \<Rightarrow> string option" where
  "firstNameOf agentName = (case split agentName '' '' of a # b # rest \<Rightarrow> Some b | _ \<Rightarrow> None)"

definition aiPrefixes :: "string list" where
  "aiPrefixes = [''As an AI assistant'', ''I'll respond as'', ''I'll help you with'',
     ''I'm responding as'', ''I am an AI'', ''As a language model'']"

definition stripAiPrefix :: "string \<Rightarrow> string \<Rightarrow> string" where
  "stripAiPrefix processed prefix =
     (if startsWith (toLowerCase processed) (toLowerCase prefix) then
        (case indexOf processed blankLine of
           None \<Rightarrow> processed
         | Some endOfPrefix \<Rightarrow> trim (drop endOfPrefix processed))
      else processed)"

definition wordRun :: rx where
  "wordRun = Star (Seq (Chr CHR '' '') (Plus (Cls False [CWord])))"

definition space :: rx where
  "space = Cls False [CSpace]"

definition notNewline :: rx where
  "notNewline = Cls True [CChr newline]"

text \<open>\<^verbatim>\<open>/\([^)]+\)/g\<close>\<close>

definition stageDirection :: rx where
  "stageDirection = seqs [Chr CHR ''('', Plus (Cls True [CChr CHR '')'']), Chr CHR '')'']"

definition otherAgentNames :: "string list" where
  "otherAgentNames = [''Alex'', ''Clara'', ''Sam'', ''Analyst Alex'', ''Curious Clara'', ''Strategic Sam'']"

definition questionPatterns :: "string \<Rightarrow> rx list" where
  "questionPatterns nm =
     [seqs [Chr CHR ''('', Opt (lit ''curious ''), lit ''question from '', lit nm, Chr CHR '')'',
            Star notNewline],
      seqs [lit nm, lit '' asks:'', Star notNewline],
      seqs [lit nm, Chr CHR 0x27, lit ''s question:'', Star notNewline]]"

definition removeAll :: "bool \<Rightarrow> string \<Rightarrow> rx \<Rightarrow> string" where
  "removeAll ic processed pattern = replaceAll ic pattern (\<lambda>_. []) processed"

definition replaceWithI :: "bool \<Rightarrow> string \<Rightarrow> rx \<Rightarrow> string" where
  "replaceWithI ic processed pattern = replaceAll ic pattern (\<lambda>_. ''I'') processed"

definition selfReferenceVerbs :: rx where
  "selfReferenceVerbs = alts (map lit [''thinks'', ''believes'', ''says'', ''notes'', ''points out'',
     ''suggests'', ''agrees'', ''adds'', ''would say''])"

definition selfReferencePatterns :: "string \<Rightarrow> string \<Rightarrow> js_error + rx list" where
  "selfReferencePatterns agentName firstName =
     (case nameRx agentName of
        Inl e \<Rightarrow> Inl e
      | Inr a \<Rightarrow>
          (case nameRx firstName of
             Inl e \<Rightarrow> Inl e
           | Inr f \<Rightarrow> Inr [seqs [a, Chr CHR '' '', selfReferenceVerbs],
                            seqs [f, Chr CHR '' '', selfReferenceVerbs]]))"

definition stripRolePrefix :: "string \<Rightarrow> string \<Rightarrow> string" where
  "stripRolePrefix processed prefix =
     (if startsWith processed prefix then trim (drop (length prefix) processed) else processed)"

definition physicalActions :: "rx list" where
  "physicalActions =
     [seqs [WordB, lit ''lean'', alts (map lit [''s'', ''ed'', ''ing'']), wordRun,
            Chr CHR '' '', alts (map lit [''forward'', ''back'', ''in'', ''on''])],
      seqs [WordB, lit ''sit'', alts (map lit [''s'', ''ting'']), wordRun,
            Chr CHR '' '', alts (map lit [''up'', ''down'', ''back''])],
      seqs [WordB, lit ''stand'', alts (map lit [''s'', ''ing'']), wordRun,
            Chr CHR '' '', alts (map lit [''up'', ''back''])],
      seqs [WordB, lit ''nod'', alts (map lit [''s'', ''ding'']), wordRun],
      seqs [WordB, lit ''smile'', alts (map lit [''s'', ''d'', ''ing'']), wordRun],
      seqs [WordB, lit ''laugh'', alts (map lit [''s'', ''ed'', ''ing'']), wordRun],
      seqs [WordB, lit ''smirk'', alts (map lit [''s'', ''ed'', ''ing'']), wordRun],
      seqs [WordB, lit ''wink'', alts (map lit [''s'', ''ed'', ''ing'']), wordRun],
      seqs [WordB, lit ''gesture'', alts (map lit [''s'', ''d'', ''ing'']), wordRun],
      seqs [WordB, lit ''in '', alts (map lit [''his'', ''her'', ''their'']), lit '' chair'', WordB]]"

definition conjunctions :: rx where
  "conjunctions = alts (map lit [''And'', ''But'', ''So'', ''Because'', ''However'', ''Therefore'', ''Thus''])"

text \<open>\<^verbatim>\<open>/\s{2,}/g\<close>, \<^verbatim>\<open>/\n\s*\n\s*\n/g\<close>, \<^verbatim>\<open>/([.!?])\s*([A-Z])/g\<close>,
  \<^verbatim>\<open>/\n\s*(And|...)\s+/g\<close> and \<^verbatim>\<open>/^(And|...)\s+/\<close>.\<close>

definition multipleSpaces :: rx where
  "multipleSpaces = seqs [space, space, Star space]"

definition multipleNewlines :: rx where
  "multipleNewlines = seqs [Chr newline, Star space, Chr newline, Star space, Chr newline]"

definition joinedSentences :: rx where
  "joinedSentences = seqs [Cls False [CChr CHR ''.'', CChr CHR ''!'', CChr CHR ''?''], Star space,
     Cls False [CRange CHR ''A'' CHR ''Z'']]"

text \<open>The replacement \<^verbatim>\<open>'$1 $2'\<close> of \<open>joinedSentences\<close>: group 1 is the first character
  of the match and group 2 its last.\<close>

definition spaceBetween :: "string \<Rightarrow> string" where
  "spaceBetween mt = (case mt of [] \<Rightarrow> '' '' | c # cs \<Rightarrow> [c] @ '' '' @ [last (c # cs)])"

definition lineConjunction :: rx where
  "lineConjunction = seqs [Chr newline, Star space, conjunctions, Plus space]"

definition leadingConjunction :: rx where
  "leadingConjunction = seqs [Bol, conjunctions, Plus space]"

definition capitalizeFirst :: "string \<Rightarrow> string" where
  "capitalizeFirst processed =
     (case processed of
        [] \<Rightarrow> []
      | c # cs \<Rightarrow> if inRange CHR ''a'' CHR ''z'' c then upperCaseChar c # cs else c # cs)"

definition nameCorrections :: "string \<Rightarrow> string \<Rightarrow> js_error + rx list" where
  "nameCorrections agentName firstName =
     (case nameRx firstName of
        Inl e \<Rightarrow> Inl e
      | Inr f \<Rightarrow>
          (case nameRx agentName of
             Inl e \<Rightarrow> Inl e
           | Inr a \<Rightarrow> Inr [seqs [lit ''I, '', f, Chr CHR '',''],
                            seqs [lit ''I, '', a, Chr CHR '',''],
                            seqs [f, lit '' thinks'']]))"

text \<open>Steps 1 to 8 of \<^verbatim>\<open>processResponse\<close>: the text handed to the length adjustment,
  or the error thrown on the way.\<close>

definition cleanup :: "string \<Rightarrow> string \<Rightarrow> js_error + string" where
  "cleanup responseText agentName =
     (let processed = trim responseText;
          firstName = (case firstNameOf agentName of None \<Rightarrow> [] | Some f \<Rightarrow> f);
          processed = foldl stripAiPrefix processed aiPrefixes;
          processed = removeAll False processed stageDirection;
          processed = foldl (removeAll True) processed (concat (map questionPatterns otherAgentNames))
      in case selfReferencePatterns agentName firstName of
           Inl e \<Rightarrow> Inl e
         | Inr patterns \<Rightarrow>
            (let processed = foldl (replaceWithI True) processed patterns;
                 processed = foldl stripRolePrefix processed
                               [agentName @ '':'', firstName @ '':'', ''Assistant:'', ''AI:''];
                 processed = foldl (removeAll True) processed physicalActions;
                 processed = replaceAll False multipleSpaces (\<lambda>_. '' '') processed;
                 processed = replaceAll False multipleNewlines (\<lambda>_. blankLine) processed;
                 processed = replaceAll False joinedSentences spaceBetween processed;
                 processed = replaceAll False lineConjunction (\<lambda>_. [newline]) processed;
                 processed = replaceFirst False leadingConjunction (\<lambda>_. []) processed;
                 processed = capitalizeFirst processed
             in case nameCorrections agentName firstName of
                  Inl e \<Rightarrow> Inl e
                | Inr corrections \<Rightarrow> Inr (foldl (replaceWithI False) processed corrections)))"

subsection \<open>Length adjustment\<close>

text \<open>The signals \<^verbatim>\<open>processResponse\<close> reads from \<^verbatim>\<open>global.currentContext\<close>; a turn
  that is not set reads as 0, which \<^verbatim>\<open>context?.turn || 1\<close> treats alike.\<close>

record Signals =
  sigTurn :: nat
  sigDirectlyAddressed :: bool
  sigUserMessage :: string

definition signalsOf :: "ConversationContext option \<Rightarrow> Signals" where
  "signalsOf g =
     (case g of
        None \<Rightarrow> \<lparr>sigTurn = 0, sigDirectlyAddressed = False, sigUserMessage = []\<rparr>
      | Some c \<Rightarrow> \<lparr>sigTurn = turn c, sigDirectlyAddressed = directlyAddressed c,
                   sigUserMessage = (case userMessage c of None \<Rightarrow> [] | Some m \<Rightarrow> m)\<rparr>)"

definition baseLimits :: "string \<Rightarrow> rat option" where
  "baseLimits agentName =
     (if agentName = ''Analyst Alex'' then Some 1200
      else if agentName = ''Curious Clara'' then Some 750
      else if agentName = ''Strategic Sam'' then Some 850
      else None)"

definition baseLimit :: "string \<Rightarrow> rat" where
  "baseLimit agentName = (case baseLimits agentName of None \<Rightarrow> 450 | Some l \<Rightarrow> l)"

definition wholeWord :: "string list \<Rightarrow> rx" where
  "wholeWord ws = seqs [WordB, alts (map lit ws), WordB]"

definition wantsBriefRx :: rx where
  "wantsBriefRx = wholeWord [''brief'', ''quick'', ''short'', ''simple'', ''summarize'', ''concise'']"

definition wantsDetailedRx :: rx where
  "wantsDetailedRx = wholeWord [''detailed'', ''comprehensive'', ''thorough'', ''explain'',
     ''elaborate'', ''in depth'']"

definition isComplexTopicRx :: rx where
  "isComplexTopicRx = wholeWord [''analysis'', ''complex'', ''difficult'', ''challenging'',
     ''compare'', ''contrast'', ''debate'']"

definition digit :: rx where
  "digit = Cls False [CDigit]"

definition isTechnicalRx :: rx where
  "isTechnicalRx = alts [Seq digit (Chr CHR ''%''), seqs [Plus digit, Chr CHR ''.'', Plus digit],
     lit ''analysis'', lit ''data'', lit ''statistics'', lit ''evidence'', lit ''metrics'']"

text \<open>\<^verbatim>\<open>/.*[.!?]/\<close>\<close>

definition sentenceEnd :: rx where
  "sentenceEnd = Seq (Star Any) (Cls False [CChr CHR ''.'', CChr CHR ''!'', CChr CHR ''?''])"

definition isTerminator :: "char \<Rightarrow> bool" where
  "isTerminator c = (c = CHR ''.'' \<or> c = CHR ''!'' \<or> c = CHR ''?'')"

definition briefResponseChance :: "Signals \<Rightarrow> rat" where
  "briefResponseChance sig =
     (let messageLower = toLowerCase (sigUserMessage sig);
          wantsBrief = test True wantsBriefRx messageLower;
          wantsDetailed = test True wantsDetailedRx messageLower;
          isQuestion = includesStr messageLower ''?'';
          turn = (if sigTurn sig = 0 then 1 else sigTurn sig);
          chance = 0.35;
          chance = (if wantsBrief then chance + 0.4
                    else if wantsDetailed then chance - 0.25 else chance);
          chance = (if turn > 3 then chance + 0.05 * of_nat (min 3 (turn - 3)) else chance)
      in if isQuestion then chance - 0.1 else chance)"

definition charLimitOf :: "string \<Rightarrow> string \<Rightarrow> Signals \<Rightarrow> rat \<Rightarrow> rat \<Rightarrow> rat" where
  "charLimitOf responseText agentName sig r1 r2 =
     (let messageLower = toLowerCase (sigUserMessage sig);
          wantsDetailed = test True wantsDetailedRx messageLower;
          isComplexTopic = test True isComplexTopicRx messageLower;
          turn = (if sigTurn sig = 0 then 1 else sigTurn sig);
          isTechnical = test True isTechnicalRx responseText;
          isDirectlyAddressed = sigDirectlyAddressed sig;
          shouldBeBrief = (r1 < briefResponseChance sig);
          charLimit = baseLimit agentName;
          charLimit =
            (if shouldBeBrief then
               (if agentName = ''Analyst Alex'' then charLimit * 0.5
                else if agentName = ''Curious Clara'' then charLimit * 0.6
                else charLimit * 0.55)
             else if wantsDetailed \<or> isComplexTopic then
               (if agentName = ''Analyst Alex'' \<and> isTechnical then charLimit * 1.4
                else if agentName = ''Curious Clara'' then charLimit * 1.3
                else charLimit * 1.25)
             else if isDirectlyAddressed then charLimit * 1.2
             else if turn \<le> 2 then charLimit * 1.1
             else charLimit);
          charLimit =
            (if isTechnical then
               (if agentName = ''Analyst Alex'' then charLimit * 1.15
                else if agentName = ''Strategic Sam'' then charLimit * 1.05
                else charLimit)
             else charLimit)
      in charLimit * (0.85 + r2 * 0.3))"

text \<open>The loop over the paragraphs: \<open>result\<close> grows by whole paragraphs while they fit;
  the first one that does not fit contributes its text up to the last sentence end
  within the room left, when more than 80 characters are left, and ends the loop.\<close>

fun preserveParagraphs :: "rat \<Rightarrow> string \<Rightarrow> string list \<Rightarrow> string" where
  "preserveParagraphs charLimit result [] = result"
| "preserveParagraphs charLimit result (p # ps) =
     (if of_nat (length (result @ p)) \<le> charLimit
      then preserveParagraphs charLimit (result @ p @ blankLine) ps
      else
        (let remainingChars = charLimit - of_nat (length result) in
         if remainingChars > 80 then
           (case matchFirst False sentenceEnd (take (nat \<lfloor>remainingChars\<rfloor>) p) of
              None \<Rightarrow> result
            | Some lastSentence \<Rightarrow> result @ lastSentence @ blankLine)
         else result))"

definition trimToLimit :: "rat \<Rightarrow> string \<Rightarrow> string" where
  "trimToLimit charLimit responseText =
     (if of_nat (length responseText) > charLimit then
        (let truncated = take (nat \<lfloor>charLimit\<rfloor>) responseText;
             paragraphs = trim (preserveParagraphs charLimit [] (split responseText blankLine))
         in case matchFirst False sentenceEnd truncated of
              None \<Rightarrow> paragraphs
            | Some lastSentence \<Rightarrow>
                if of_nat (length lastSentence) > charLimit * 0.5 then trim lastSentence
                else paragraphs)
      else responseText)"

definition applyDynamicLengthAdjustment :: "string \<Rightarrow> string \<Rightarrow> Signals \<Rightarrow> rnd \<Rightarrow> string \<times> rnd" where
  "applyDynamicLengthAdjustment responseText agentName sig rs =
     (trimToLimit (charLimitOf responseText agentName sig (random rs) (random (advance rs))) responseText,
      advance (advance rs))"

text \<open>\<^verbatim>\<open>processResponse\<close>: the whole body is inside \<^verbatim>\<open>try\<close>; the handler returns the
  raw text.\<close>

definition processResponse :: "string \<Rightarrow> string \<Rightarrow> ConversationContext option \<Rightarrow> rnd \<Rightarrow> string \<times> rnd" where
  "processResponse responseText agentName currentContext rs =
     (case cleanup responseText agentName of
        Inl e \<Rightarrow> (responseText, rs)
      | Inr processed \<Rightarrow> applyDynamicLengthAdjustment processed agentName (signalsOf currentContext) rs)"

section \<open>AgentSelector\<close>

text \<open>\<^verbatim>\<open>/\b[1-9A-HJ-NP-Za-km-z]{32,44}\b/g\<close>\<close>

fun upTo :: "nat \<Rightarrow> rx \<Rightarrow> rx" where
  "upTo 0 r = Eps"
| "upTo (Suc n) r = Alt (Seq r (upTo n r)) Eps"

definition repeatRx :: "nat \<Rightarrow> nat \<Rightarrow> rx \<Rightarrow> rx" where
  "repeatRx lo hi r = seqs (replicate lo r @ [upTo (hi - lo) r])"

definition solanaAddressRegex :: rx where
  "solanaAddressRegex =
     seqs [WordB,
           repeatRx 32 44 (Cls False [CRange CHR ''1'' CHR ''9'', CRange CHR ''A'' CHR ''H'',
             CRange CHR ''J'' CHR ''N'', CRange CHR ''P'' CHR ''Z'', CRange CHR ''a'' CHR ''k'',
             CRange CHR ''m'' CHR ''z'']),
           WordB]"

definition blockchainKeywords :: "string list" where
  "blockchainKeywords = [''wallet'', ''token'', ''solana'', ''blockchain'', ''crypto'']"

definition directPatterns :: "string \<Rightarrow> js_error + rx list" where
  "directPatterns firstName =
     (case nameRx firstName of
        Inl e \<Rightarrow> Inl e
      | Inr f \<Rightarrow>
          Inr [seqs [WordB, f, Chr CHR '','', space],
               seqs [WordB, f, Chr CHR '':'', space],
               seqs [WordB, lit ''ask'', Plus space, f, WordB],
               seqs [WordB, f, Plus space, lit ''please'', WordB],
               seqs [WordB, lit ''hey'', Plus space, f, WordB],
               seqs [WordB, lit ''what'', Plus space, alts (map lit [''do'', ''does'', ''would'']),
                     Plus space, f, Plus space, lit ''think'']])"

fun getExplicitlyMentionedAgentsFrom ::
  "string \<Rightarrow> string list \<Rightarrow> string list \<Rightarrow> js_error + string list" where
  "getExplicitlyMentionedAgentsFrom messageLower mentionedAgents [] = Inr mentionedAgents"
| "getExplicitlyMentionedAgentsFrom messageLower mentionedAgents (a # as) =
     (let agentLower = toLowerCase a in
      case firstNameOf a of
        None \<Rightarrow> getExplicitlyMentionedAgentsFrom messageLower mentionedAgents as
      | Some fn \<Rightarrow>
          (let firstName = toLowerCase fn in
           if firstName = [] then getExplicitlyMentionedAgentsFrom messageLower mentionedAgents as
           else if startsWith messageLower (firstName @ '','') \<or>
                   startsWith messageLower (firstName @ '':'') \<or>
                   startsWith messageLower (agentLower @ '','') \<or>
                   startsWith messageLower (agentLower @ '':'')
           then getExplicitlyMentionedAgentsFrom messageLower (mentionedAgents @ [a]) as
           else
             (case directPatterns firstName of
                Inl e \<Rightarrow> Inl e
              | Inr patterns \<Rightarrow>
                  (let mentionedAgents =
                         (if list_ex (\<lambda>pattern. test True pattern messageLower) patterns
                          then mentionedAgents @ [a] else mentionedAgents);
                       mentionedAgents =
                         (if a \<notin> set mentionedAgents \<and>
                             (includesStr messageLower firstName \<or> includesStr messageLower agentLower) \<and>
                             includesStr messageLower ''?''
                          then mentionedAgents @ [a] else mentionedAgents)
                   in getExplicitlyMentionedAgentsFrom messageLower mentionedAgents as))))"

definition getExplicitlyMentionedAgents :: "string \<Rightarrow> string list \<Rightarrow> js_error + string list" where
  "getExplicitlyMentionedAgents messageLower availableAgents =
     getExplicitlyMentionedAgentsFrom messageLower [] availableAgents"

definition comprehensiveTerms :: "string list" where
  "comprehensiveTerms = [''everyone'', ''all'', ''each'', ''debate'', ''discuss'', ''perspectives'']"

definition focusedTerms :: "string list" where
  "focusedTerms = [''briefly'', ''quick'', ''short'', ''simple'', ''just one'']"

definition determineResponseCount :: "ConversationContext \<Rightarrow> string \<Rightarrow> rnd \<Rightarrow> nat \<times> rnd" where
  "determineResponseCount ctx msg rs =
     (let t = (if turn ctx = 0 then 1 else turn ctx) in
      if t \<le> 2 then (3, rs)
      else if list_ex (includesStr msg) comprehensiveTerms then (3, rs)
      else if list_ex (includesStr msg) focusedTerms then (1, rs)
      else if random rs < min 0.4 (0.15 + of_nat t * 0.05) then (1, advance rs)
      else if random (advance rs) < min 0.5 (0.2 + of_nat t * 0.03) then (2, advance (advance rs))
      else (3, advance (advance rs)))"

definition agentKeywords :: "string \<Rightarrow> string list" where
  "agentKeywords a =
     (if a = ''Analyst Alex'' then
        [''data'', ''analysis'', ''statistics'', ''numbers'', ''research'', ''evidence'', ''metrics'',
         ''probability'', ''risks'', ''facts'', ''study'', ''report'', ''measure'', ''quantify'',
         ''costs'', ''investment'', ''budget'', ''finance'', ''economic'', ''economy'', ''market'',
         ''price'', ''profit'', ''revenue'', ''growth'', ''forecast'', ''projection'', ''trend'',
         ''technical'', ''calculation'', ''algorithm'', ''model'', ''estimate'', ''precision'',
         ''accurate'', ''analytical'', ''breakdown'', ''comparison'', ''correlation'', ''statistics'']
      else if a = ''Curious Clara'' then
        [''creative'', ''innovation'', ''imagine'', ''possibility'', ''idea'', ''what if'',
         ''future'', ''design'', ''different'', ''curious'', ''dream'', ''alternative'',
         ''wonder'', ''create'', ''invent'', ''inspire'', ''transform'', ''reimagine'',
         ''experiment'', ''explore'', ''discover'', ''question'', ''challenge'', ''possibility'',
         ''potential'', ''unprecedented'', ''unconventional'', ''unusual'', ''outside the box'',
         ''could'', ''might'', ''may'', ''perhaps'', ''possibly'', ''imagine'', ''consider'',
         ''theoretically'', ''hypothetically'', ''creatively'', ''wildly'', ''brainstorm'']
      else if a = ''Strategic Sam'' then
        [''plan'', ''strategy'', ''implementation'', ''decision'', ''approach'', ''goal'',
         ''objective'', ''next steps'', ''roadmap'', ''action'', ''practical'', ''solution'',
         ''execute'', ''prioritize'', ''timeline'', ''milestone'', ''coordinate'', ''organize'',
         ''manage'', ''lead'', ''direct'', ''guide'', ''align'', ''streamline'', ''implement'',
         ''realistic'', ''effective'', ''efficient'', ''practical'', ''achievable'', ''tangible'',
         ''concrete'', ''step-by-step'', ''systematic'', ''structured'', ''method'', ''process'',
         ''framework'', ''best practice'', ''recommendation'', ''priority'', ''tradeoff'']
      else [])"

definition positionWeight :: "string \<Rightarrow> string \<Rightarrow> rat" where
  "positionWeight messageLower keyword =
     (case indexOf messageLower keyword of
        None \<Rightarrow> 0
      | Some keywordIndex \<Rightarrow>
          max 0.5 (1 - of_nat keywordIndex / of_nat (min 100 (length messageLower))))"

definition recentSpeakers :: "ConversationContext \<Rightarrow> string \<Rightarrow> nat" where
  "recentSpeakers ctx a =
     length (filter (\<lambda>m. role m = RoleAssistant \<and> name m = Some a)
               (drop (length (messageHistory ctx) - 6) (messageHistory ctx)))"

definition agentScore :: "string \<Rightarrow> ConversationContext \<Rightarrow> string \<Rightarrow> rat \<Rightarrow> rat" where
  "agentScore messageLower ctx a r =
     (let score = sum_list (map (positionWeight messageLower) (agentKeywords a));
          score = (if Some a = lastAgent ctx then score - 2.5 else score);
          score = (if recentSpeakers ctx a = 0 then score + 1.5 else score)
      in score + r * 0.3)"

fun agentScores :: "string \<Rightarrow> ConversationContext \<Rightarrow> string list \<Rightarrow> rnd \<Rightarrow> (string \<times> rat) list \<times> rnd" where
  "agentScores messageLower ctx [] rs = ([], rs)"
| "agentScores messageLower ctx (a # as) rs =
     (let (scored, rs') = agentScores messageLower ctx as (advance rs)
      in ((a, agentScore messageLower ctx a (random rs)) # scored, rs'))"

text \<open>\<^verbatim>\<open>sort((a, b) => b.score - a.score)\<close>: by falling score, entries of equal score
  keeping their order.\<close>

definition rankAgentsByRelevance ::
  "string \<Rightarrow> string list \<Rightarrow> ConversationContext \<Rightarrow> rnd \<Rightarrow> string list \<times> rnd" where
  "rankAgentsByRelevance messageLower availableAgents ctx rs =
     (let (scored, rs') = agentScores messageLower ctx availableAgents rs
      in (map fst (sort_key (\<lambda>item. - snd item) scored), rs'))"

text \<open>The table of \<^verbatim>\<open>applyRelationshipBasedOrdering\<close>, its followers in the order
  \<^verbatim>\<open>Object.keys\<close> lists them.\<close>

definition relationshipPatterns :: "string \<Rightarrow> (string \<times> rat) list option" where
  "relationshipPatterns a =
     (if a = ''Analyst Alex'' then Some [(''Curious Clara'', 0.75), (''Strategic Sam'', 0.5)]
      else if a = ''Curious Clara'' then Some [(''Strategic Sam'', 0.8), (''Analyst Alex'', 0.4)]
      else if a = ''Strategic Sam'' then Some [(''Analyst Alex'', 0.6), (''Curious Clara'', 0.5)]
      else None)"

definition moveToFront :: "string \<Rightarrow> string list \<Rightarrow> string list" where
  "moveToFront follower baseOrder = follower # filter (\<lambda>a. a \<noteq> follower) baseOrder"

fun followerLoop :: "string list \<Rightarrow> string \<Rightarrow> (string \<times> rat) list \<Rightarrow> rnd \<Rightarrow> string list \<times> rnd" where
  "followerLoop baseOrder lastA [] rs = (baseOrder, rs)"
| "followerLoop baseOrder lastA ((follower, likelihood) # fs) rs =
     (if follower \<in> set baseOrder then
        (if random rs < likelihood \<and> follower \<noteq> lastA
         then (moveToFront follower baseOrder, advance rs)
         else followerLoop baseOrder lastA fs (advance rs))
      else followerLoop baseOrder lastA fs rs)"

definition applyRelationshipBasedOrdering ::
  "string list \<Rightarrow> ConversationContext \<Rightarrow> rnd \<Rightarrow> string list \<times> rnd" where
  "applyRelationshipBasedOrdering baseOrder ctx rs =
     (case lastAgent ctx of
        None \<Rightarrow> (baseOrder, rs)
      | Some lastA \<Rightarrow>
          if lastA = [] \<or> length baseOrder < 2 \<or> turn ctx < 2 then (baseOrder, rs)
          else if random rs > 0.6 then (baseOrder, advance rs)
          else
            (case relationshipPatterns lastA of
               None \<Rightarrow> (baseOrder, advance rs)
             | Some patterns \<Rightarrow> followerLoop baseOrder lastA patterns (advance rs)))"

definition selectAgents ::
  "string \<Rightarrow> string list \<Rightarrow> ConversationContext \<Rightarrow> rnd \<Rightarrow> js_error + (string list \<times> rnd)" where
  "selectAgents msg availableAgents ctx rs =
     (if msg = [] \<or> availableAgents = [] then Inr (availableAgents, rs)
      else
        (let messageLower = toLowerCase msg;
             hasAddress = test False solanaAddressRegex messageLower;
             hasBlockchainKeywords = list_ex (includesStr messageLower) blockchainKeywords
         in if (hasAddress \<or> hasBlockchainKeywords) \<and> ''Analyst Alex'' \<in> set availableAgents
            then Inr (moveToFront ''Analyst Alex'' availableAgents, rs)
            else
              (case getExplicitlyMentionedAgents messageLower availableAgents of
                 Inl e \<Rightarrow> Inl e
               | Inr mentionedAgents \<Rightarrow>
                   if mentionedAgents \<noteq> [] then Inr (mentionedAgents, rs)
                   else
                     (let (responseCount, rs1) = determineResponseCount ctx messageLower rs;
                          (rankedAgents, rs2) = rankAgentsByRelevance messageLower availableAgents ctx rs1;
                          selectedAgents = take responseCount rankedAgents
                      in if turn ctx > 1
                         then Inr (applyRelationshipBasedOrdering selectedAgents ctx rs2)
                         else Inr (selectedAgents, rs2)))))"

section \<open>ChatWorkflowManager\<close>

text \<open>
  A runtime, as far as the program reads it: its character and its model provider, when
  it has them, and whether the provider's \<^verbatim>\<open>generateText\<close> is a function. The runtimes are kept as
  the list of their entries in the order \<^verbatim>\<open>Object.keys\<close> gives. Session ids and persona
  names that name a property of \<^verbatim>\<open>Object.prototype\<close> are outside the model.
\<close>

record Character =
  characterName :: string
  system :: "string option"

record ModelProvider =
  hasGenerateText :: bool

record Runtime =
  character :: "Character option"
  modelProvider :: "ModelProvider option"

definition canGenerate :: "Runtime \<Rightarrow> bool" where
  "canGenerate runtime =
     (case modelProvider runtime of None \<Rightarrow> False | Some mp \<Rightarrow> hasGenerateText mp)"

type_synonym runtimes = "(string \<times> Runtime) list"

text \<open>The generation capability is outside the program: \<open>g n a prompt\<close> is what the
  \<open>n\<close>-th call of \<^verbatim>\<open>generateText\<close> yields when made for persona \<open>a\<close> with that prompt.\<close>

datatype generated = Rejected | Resolved string

type_synonym generator = "nat \<Rightarrow> string \<Rightarrow> string \<Rightarrow> generated"

record Topics =
  currentTopic :: string
  previousTopics :: "string list"

record ManagerState =
  sessionContexts :: "string \<Rightarrow> ConversationContext option"
  sessionTopics :: "string \<Rightarrow> Topics option"
  randoms :: rnd
  generateCalls :: nat

definition defaultAgentSequence :: "string list" where
  "defaultAgentSequence = [''Analyst Alex'', ''Curious Clara'', ''Strategic Sam'']"

definition newContext :: ConversationContext where
  "newContext = \<lparr>turn = 0, lastAgent = None, userMessage = None, lastUserMessage = None,
     messageHistory = [], directlyAddressed = False\<rparr>"

definition getOrCreateContext :: "ManagerState \<Rightarrow> string \<Rightarrow> ConversationContext" where
  "getOrCreateContext st sessionId =
     (case sessionContexts st sessionId of None \<Rightarrow> newContext | Some c \<Rightarrow> c)"

definition topicChangeCues :: "string list" where
  "topicChangeCues = [''new topic'', ''different topic'', ''change subject'']"

definition longWords :: "string \<Rightarrow> string list" where
  "longWords s = remdups (filter (\<lambda>w. length w > 3) (splitNonWord s))"

definition isNewTopic :: "string \<Rightarrow> string \<Rightarrow> bool" where
  "isNewTopic currentMessage lastMessage =
     (if lastMessage = [] then False
      else
        (let messageLower = toLowerCase currentMessage in
         if list_ex (includesStr messageLower) topicChangeCues then True
         else
           (let currentWords = longWords messageLower;
                lastWords = longWords (toLowerCase lastMessage);
                intersection = filter (\<lambda>x. x \<in> set lastWords) currentWords;
                similarity = (of_nat (length intersection) :: rat) /
                             of_nat (if length currentWords = 0 then 1 else length currentWords)
            in similarity < 0.15)))"

fun decimal :: "nat \<Rightarrow> string" where
  "decimal n = (if n < 10 then [char_of (48 + n)] else decimal (n div 10) @ [char_of (48 + n mod 10)])"

definition topicChanged :: "ConversationContext \<Rightarrow> string \<Rightarrow> bool" where
  "topicChanged ctx msg =
     (case lastUserMessage ctx of None \<Rightarrow> False | Some l \<Rightarrow> l \<noteq> [] \<and> isNewTopic msg l)"

text \<open>\<^verbatim>\<open>handleTopicChange\<close>: the topics of the session and its context afterwards;
  \<open>now\<close> is the value of \<^verbatim>\<open>Date.now()\<close>.\<close>

definition handleTopicChange ::
  "nat \<Rightarrow> string \<Rightarrow> Topics option \<Rightarrow> ConversationContext \<Rightarrow> Topics \<times> ConversationContext" where
  "handleTopicChange now msg topics ctx =
     (let tp = (case topics of None \<Rightarrow> \<lparr>currentTopic = ''general'', previousTopics = []\<rparr>
                | Some t \<Rightarrow> t)
      in if topicChanged ctx msg then
           (\<lparr>currentTopic = ''topic-'' @ decimal now,
             previousTopics = previousTopics tp @ [currentTopic tp]\<rparr>,
            ctx\<lparr>messageHistory := messageHistory ctx @
              [\<lparr>role = RoleSystem, content = ''--- Topic change ---'', name = None\<rparr>]\<rparr>)
         else (tp, ctx))"

definition addressed :: "string \<Rightarrow> string \<Rightarrow> bool" where
  "addressed messageLower a =
     (let fullName = toLowerCase a in
      case firstNameOf a of
        None \<Rightarrow> False
      | Some fn \<Rightarrow>
          (let firstName = toLowerCase fn in
           firstName \<noteq> [] \<and>
           (startsWith messageLower firstName \<or>
            includesStr messageLower (firstName @ '','') \<or>
            includesStr messageLower (firstName @ '':'') \<or>
            includesStr messageLower (fullName @ '','') \<or>
            includesStr messageLower (fullName @ '':''))))"

definition getDirectlyAddressedAgents :: "string \<Rightarrow> string list \<Rightarrow> string list" where
  "getDirectlyAddressedAgents msg availableAgents = filter (addressed (toLowerCase msg)) availableAgents"

type_synonym selector =
  "string \<Rightarrow> string list \<Rightarrow> ConversationContext \<Rightarrow> rnd \<Rightarrow> js_error + (string list \<times> rnd)"

text \<open>\<^verbatim>\<open>determineRespondingAgents\<close>, with the selector it calls as an argument: the
  speaking order, the context (the flag \<^verbatim>\<open>directlyAddressed\<close> may be set) and the
  random values left.\<close>

definition determineRespondingAgentsBy ::
  "selector \<Rightarrow> runtimes \<Rightarrow> string \<Rightarrow> ConversationContext \<Rightarrow> rnd \<Rightarrow>
   js_error + (string list \<times> ConversationContext \<times> rnd)" where
  "determineRespondingAgentsBy sel rts msg ctx rs =
     (let availableAgents = filter (\<lambda>nm. nm \<in> set (map fst rts)) defaultAgentSequence in
      if length availableAgents = 0 then Inr (take 3 (map fst rts), ctx, rs)
      else
        (let directlyAddressedAgents = getDirectlyAddressedAgents msg availableAgents in
         if length directlyAddressedAgents > 0 then
           (let ctx = ctx\<lparr>directlyAddressed := True\<rparr> in
            if length directlyAddressedAgents = 1 \<and>
               \<not> includesStr (toLowerCase msg) ''everyone'' \<and>
               \<not> includesStr (toLowerCase msg) ''all''
            then Inr (directlyAddressedAgents, ctx, rs)
            else Inr (directlyAddressedAgents, ctx, rs))
         else
           (case sel msg availableAgents ctx rs of
              Inl e \<Rightarrow> Inl e
            | Inr (agents, rs') \<Rightarrow> Inr (agents, ctx, rs'))))"

definition determineRespondingAgents ::
  "runtimes \<Rightarrow> string \<Rightarrow> ConversationContext \<Rightarrow> rnd \<Rightarrow>
   js_error + (string list \<times> ConversationContext \<times> rnd)" where
  "determineRespondingAgents = determineRespondingAgentsBy selectAgents"

subsection \<open>Prompt construction\<close>

definition styleDirectives :: "string \<Rightarrow> string" where
  "styleDirectives agentName =
     (if agentName = ''Analyst Alex'' then
        ''IMPORTANT: Start by directly answering the question with data or facts in 1-2 sentences. Then briefly add context.'' @ [newline] @
        ''Your style is typically data-focused and precise, with a touch of dry humor or skepticism:'' @ [newline] @
        ''- You generally prefer facts and evidence over speculation'' @ [newline] @
        ''- You use examples, statistics, or data points when possible'' @ [newline] @
        ''- You can be skeptical and slightly sarcastic at times'' @ [newline] @
        ''- You challenge unfounded claims and assumptions'' @ [newline] @
        ''- Your responses should be concise and to the point'' @ blankLine
      else if agentName = ''Curious Clara'' then
        ''IMPORTANT: First answer the specific question asked, then explore creative possibilities.'' @ [newline] @
        ''Your style is creative, inquisitive, and energetic:'' @ [newline] @
        ''- You enjoy exploring unconventional ideas and possibilities'' @ [newline] @
        ''- You naturally challenge assumptions and traditional thinking'' @ [newline] @
        ''- You bring energy and enthusiasm to your responses'' @ [newline] @
        ''- You see connections others might miss'' @ [newline] @
        ''- Your thinking is flexible but remains focused on the actual question'' @ blankLine
      else if agentName = ''Strategic Sam'' then
        ''IMPORTANT: Begin with a clear, direct answer to the question, then provide practical next steps.'' @ [newline] @
        ''Your style is practical, solution-oriented, and decisive:'' @ [newline] @
        ''- You focus on actionable insights and implementation'' @ [newline] @
        ''- You synthesize others' ideas into coherent approaches'' @ [newline] @
        ''- You're direct and decisive in your recommendations'' @ [newline] @
        ''- You consider both short and long-term implications'' @ [newline] @
        ''- You're pragmatic and focused on real-world application'' @ blankLine
      else [])"

definition conversationPartners :: "string \<Rightarrow> string" where
  "conversationPartners agentName =
     ''You're having a casual conversation with:'' @ [newline] @
     (if agentName \<noteq> ''Analyst Alex''
      then ''- Alex: analytical, data-focused, occasionally sarcastic'' @ [newline] else []) @
     (if agentName \<noteq> ''Curious Clara''
      then ''- Clara: creative, asks thought-provoking questions, imaginative'' @ [newline] else []) @
     (if agentName \<noteq> ''Strategic Sam''
      then ''- Sam: practical, solution-oriented, synthesizes ideas'' @ [newline] else []) @
     [newline]"

definition formatInstructions :: string where
  "formatInstructions =
     ''IMPORTANT FORMAT INSTRUCTIONS: This is a text-only chat conversation. DO NOT include:'' @ [newline] @
     ''- Stage directions in parentheses like (smiles), (pauses), or (thinks)'' @ [newline] @
     ''- Physical actions, facial expressions, or body language'' @ [newline] @
     ''- References to yourself in the third person'' @ [newline] @
     ''- Made-up questions or comments from other participants'' @ blankLine @
     ''Simply respond directly in first person as yourself in a natural conversational style.'' @ blankLine @
     ''Guidelines for your response:'' @ [newline] @
     ''- Answer the specific question directly before adding extra context'' @ [newline] @
     ''- Vary your response length - sometimes brief (1-2 sentences), sometimes more detailed'' @ [newline] @
     ''- You may occasionally disagree with other participants in a respectful way'' @ [newline] @
     ''- Focus on adding new insights rather than repeating what's been said'' @ blankLine"

definition relationshipGuidance :: "string \<Rightarrow> AgentResponse list \<Rightarrow> string" where
  "relationshipGuidance agentName previousResponses =
     (if previousResponses = [] then []
      else
        (let lastA = agent (last previousResponses) in
         if agentName = ''Curious Clara'' \<and> lastA = ''Analyst Alex'' then
           ''Challenge Alex's data-focused perspective by suggesting an unconventional angle he may have missed.'' @ [newline]
         else if agentName = ''Strategic Sam'' \<and> lastA = ''Curious Clara'' then
           ''Ground Clara's creative ideas with practical implementation steps or limitations.'' @ [newline]
         else if agentName = ''Analyst Alex'' \<and> lastA = ''Strategic Sam'' then
           ''Add statistical context or question assumptions in Sam's strategic approach.'' @ [newline]
         else []))"

definition transcriptLine :: "AgentResponse \<Rightarrow> string" where
  "transcriptLine response =
     (let firstName = (case firstNameOf (agent response) of
                         None \<Rightarrow> agent response
                       | Some f \<Rightarrow> if f = [] then agent response else f)
      in firstName @ '': '' @ message response @ blankLine)"

definition doubleQuote :: char where
  "doubleQuote = CHR 0x22"

definition buildAgentPrompt ::
  "runtimes \<Rightarrow> string \<Rightarrow> string \<Rightarrow> AgentResponse list \<Rightarrow> js_error + string" where
  "buildAgentPrompt rts msg agentName previousResponses =
     (case map_of rts agentName of
        None \<Rightarrow> Inl (Error (''No runtime for '' @ agentName))
      | Some runtime \<Rightarrow>
          (case character runtime of
             None \<Rightarrow> Inl TypeError
           | Some ch \<Rightarrow>
               Inr (''You are '' @ characterName ch @ ''.'' @ [newline] @
                    (case system ch of
                       None \<Rightarrow> [newline]
                     | Some sy \<Rightarrow> if sy = [] then [newline] else sy @ blankLine) @
                    styleDirectives agentName @
                    conversationPartners agentName @
                    formatInstructions @
                    relationshipGuidance agentName previousResponses @
                    (if previousResponses \<noteq> [] then
                       ''The user asked: '' @ [doubleQuote] @ msg @ [doubleQuote] @ blankLine @
                       ''The conversation so far:'' @ [newline] @
                       concat (map transcriptLine previousResponses) @
                       ''Your turn to respond as '' @ characterName ch @ '':'' @ [newline]
                     else
                       ''Respond to this message: '' @ [doubleQuote] @ msg @ [doubleQuote] @ blankLine))))"

subsection \<open>Processing a message\<close>

text \<open>The retry loop: at most \<open>n\<close> more attempts; a rejected call and an empty text both
  lead to the next attempt. The result is the text the loop ends with, when it has one.\<close>

fun generateWithRetry :: "generator \<Rightarrow> string \<Rightarrow> string \<Rightarrow> nat \<Rightarrow> nat \<Rightarrow> string option \<times> nat" where
  "generateWithRetry g agentName prompt 0 calls = (None, calls)"
| "generateWithRetry g agentName prompt (Suc n) calls =
     (case g calls agentName prompt of
        Rejected \<Rightarrow> generateWithRetry g agentName prompt n (Suc calls)
      | Resolved t \<Rightarrow>
          if t = [] then generateWithRetry g agentName prompt n (Suc calls)
          else (Some t, Suc calls))"

definition MAX_ATTEMPTS :: nat where
  "MAX_ATTEMPTS = 2"

definition fallbackText :: string where
  "fallbackText = ''I need more time to think about this.''"

definition troubleText :: string where
  "troubleText = ''I'm having trouble processing your request right now.''"

record Progress =
  responses :: "AgentResponse list"
  current :: ConversationContext
  randomsLeft :: rnd
  callsMade :: nat

text \<open>One pass of the loop over the responding agents.\<close>

definition processAgent :: "runtimes \<Rightarrow> generator \<Rightarrow> string \<Rightarrow> Progress \<Rightarrow> string \<Rightarrow> Progress" where
  "processAgent rts g msg pr agentName =
     (case map_of rts agentName of
        None \<Rightarrow> pr
      | Some runtime \<Rightarrow>
          if \<not> canGenerate runtime then pr
          else
            (let ctx = (current pr)\<lparr>lastAgent :=
                         (if responses pr = [] then None else Some (agent (last (responses pr))))\<rparr>
             in case buildAgentPrompt rts msg agentName (responses pr) of
                  Inl e \<Rightarrow>
                    pr\<lparr>current := ctx,
                       responses := responses pr @
                         [\<lparr>agent = agentName,
                           message = troubleText\<rparr>]\<rparr>
                | Inr prompt \<Rightarrow>
                    (let (generated, calls) = generateWithRetry g agentName prompt MAX_ATTEMPTS (callsMade pr);
                         responseText = (case generated of
                                           None \<Rightarrow> fallbackText
                                         | Some t \<Rightarrow> t);
                         (responseText, rs) = processResponse responseText agentName (Some ctx) (randomsLeft pr)
                     in case character runtime of
                          None \<Rightarrow>
                            pr\<lparr>current := ctx, randomsLeft := rs, callsMade := calls,
                               responses := responses pr @
                                 [\<lparr>agent = agentName,
                                   message = troubleText\<rparr>]\<rparr>
                        | Some ch \<Rightarrow>
                            pr\<lparr>current := ctx\<lparr>messageHistory := messageHistory ctx @
                                    [\<lparr>role = RoleAssistant, content = responseText, name = Some agentName\<rparr>]\<rparr>,
                               randomsLeft := rs, callsMade := calls,
                               responses := responses pr @
                                 [\<lparr>agent = characterName ch, message = responseText\<rparr>]\<rparr>)))"

definition systemFallback :: AgentResponse where
  "systemFallback = \<lparr>agent = ''System'',
     message = ''Our agents were unable to process your request. Please try again.''\<rparr>"

text \<open>The start of \<^verbatim>\<open>processMessage\<close>: the topic change is handled, then the context is
  updated with the current message and the message is added to the history.\<close>

definition beginTurn ::
  "nat \<Rightarrow> string \<Rightarrow> Topics option \<Rightarrow> ConversationContext \<Rightarrow> Topics \<times> ConversationContext" where
  "beginTurn now msg topics ctx =
     (let (tp, ctx) = handleTopicChange now msg topics ctx;
          ctx = ctx\<lparr>lastUserMessage := userMessage ctx\<rparr>;
          ctx = ctx\<lparr>userMessage := Some msg\<rparr>;
          ctx = ctx\<lparr>turn := turn ctx + 1\<rparr>;
          ctx = ctx\<lparr>messageHistory := messageHistory ctx @
                  [\<lparr>role = RoleUser, content = msg, name = None\<rparr>]\<rparr>
      in (tp, ctx))"

text \<open>\<^verbatim>\<open>processMessage\<close>, with the selector as an argument: the responses returned, or
  the error thrown, and the state afterwards.\<close>

definition processMessageBy ::
  "selector \<Rightarrow> runtimes \<Rightarrow> generator \<Rightarrow> nat \<Rightarrow> string \<Rightarrow> string \<Rightarrow> ManagerState \<Rightarrow>
   (js_error + AgentResponse list) \<times> ManagerState" where
  "processMessageBy sel rts g now msg sessionId st =
     (let (topics, ctx) = beginTurn now msg (sessionTopics st sessionId)
                            (getOrCreateContext st sessionId)
      in case determineRespondingAgentsBy sel rts msg ctx (randoms st) of
           Inl e \<Rightarrow>
             (Inl e,
              st\<lparr>sessionContexts := (sessionContexts st)(sessionId := Some ctx),
                 sessionTopics := (sessionTopics st)(sessionId := Some topics)\<rparr>)
         | Inr (respondingAgents, ctx, rs) \<Rightarrow>
             (let pr = foldl (processAgent rts g msg)
                         \<lparr>responses = [], current = ctx, randomsLeft = rs,
                          callsMade = generateCalls st\<rparr>
                         respondingAgents;
                  result = (if length (responses pr) = 0 then [systemFallback] else responses pr)
              in (Inr result,
                  st\<lparr>sessionContexts := (sessionContexts st)(sessionId := Some (current pr)),
                     sessionTopics := (sessionTopics st)(sessionId := Some topics),
                     randoms := randomsLeft pr,
                     generateCalls := callsMade pr\<rparr>)))"

definition processMessage ::
  "runtimes \<Rightarrow> generator \<Rightarrow> nat \<Rightarrow> string \<Rightarrow> string \<Rightarrow> ManagerState \<Rightarrow>
   (js_error + AgentResponse list) \<times> ManagerState" where
  "processMessage = processMessageBy selectAgents"

section \<open>The chat endpoint\<close>

text \<open>The \<^verbatim>\<open>message\<close> of a request body: absent (or another value that \<^verbatim>\<open>!message\<close>
  takes for absent), a text, or a value that is neither.\<close>

datatype field = Missing | Text string | NotText

record ChatRequest =
  requestMessage :: field
  requestSessionId :: "string option"

datatype details = Explanation string | MessageOf js_error

record HttpResponse =
  status :: nat
  error :: "string option"
  errorDetails :: "details option"
  conversation :: "AgentResponse list option"

definition validRuntimes :: "runtimes \<Rightarrow> runtimes" where
  "validRuntimes rts =
     filter (\<lambda>(nm, runtime). modelProvider runtime \<noteq> None \<and> character runtime \<noteq> None) rts"

definition invalidRequest :: HttpResponse where
  "invalidRequest = \<lparr>status = 400, error = Some ''Message is required'',
     errorDetails = Some (Explanation ''The request must include a message to process''),
     conversation = None\<rparr>"

definition timeoutResponse :: HttpResponse where
  "timeoutResponse = \<lparr>status = 504, error = Some ''Request timed out'', errorDetails = None,
     conversation = Some [\<lparr>agent = ''System'',
       message = ''The request took too long to process. Please try again later.''\<rparr>]\<rparr>"

definition processingFailed :: "js_error \<Rightarrow> HttpResponse" where
  "processingFailed e = \<lparr>status = 500, error = Some ''Message processing failed'',
     errorDetails = Some (MessageOf e),
     conversation = Some [\<lparr>agent = ''System'',
       message = ''An error occurred while processing your request. Please try again later.''\<rparr>]\<rparr>"

definition unexpectedError :: "js_error \<Rightarrow> HttpResponse" where
  "unexpectedError e = \<lparr>status = 500, error = Some ''Unexpected server error'',
     errorDetails = Some (MessageOf e),
     conversation = Some [\<lparr>agent = ''System'',
       message = ''An unexpected error occurred. Our team has been notified.''\<rparr>]\<rparr>"

definition success :: "AgentResponse list \<Rightarrow> HttpResponse" where
  "success rs = \<lparr>status = 200, error = None, errorDetails = None, conversation = Some rs\<rparr>"

text \<open>The handler of \<^verbatim>\<open>POST /multi-agent-chat\<close>, for a manager over the runtimes \<open>rts\<close>:
  the response it sends and the manager's state afterwards. The response the timer sends
  after 45 seconds, when the handler has not finished by then, is \<open>timeoutResponse\<close>.\<close>

definition multiAgentChat ::
  "runtimes \<Rightarrow> generator \<Rightarrow> nat \<Rightarrow> ChatRequest \<Rightarrow> ManagerState \<Rightarrow> HttpResponse \<times> ManagerState" where
  "multiAgentChat rts g now req st =
     (let sessionId = (case requestSessionId req of None \<Rightarrow> ''default'' | Some s \<Rightarrow> s) in
      case requestMessage req of
        Missing \<Rightarrow> (invalidRequest, st)
      | NotText \<Rightarrow> (unexpectedError TypeError, st)
      | Text msg \<Rightarrow>
          if msg = [] then (invalidRequest, st)
          else
            (case processMessage rts g now msg sessionId st of
               (Inl e, st') \<Rightarrow> (processingFailed e, st')
             | (Inr rs, st') \<Rightarrow>
                 if length rs = 0
                 then (success [\<lparr>agent = ''System'',
                         message = ''Our agents are taking a break. Please try again.''\<rparr>], st')
                 else (success rs, st')))"

text \<open>\<^verbatim>\<open>setupMultiAgentChatEndpoint\<close>: the handler it registers, or the error it throws
  when no runtime is valid.\<close>

definition setupMultiAgentChatEndpoint ::
  "runtimes \<Rightarrow>
   js_error + (generator \<Rightarrow> nat \<Rightarrow> ChatRequest \<Rightarrow> ManagerState \<Rightarrow> HttpResponse \<times> ManagerState)" where
  "setupMultiAgentChatEndpoint rts =
     (if length (validRuntimes rts) = 0
      then Inl (Error ''No valid agent runtimes found. Multi-agent chat cannot be initialized.'')
      else Inr (multiAgentChat (validRuntimes rts)))"

section \<open>Example inputs\<close>

text \<open>A roster of the three personas, each with a character and a working model
  provider, and contexts used in the examples below.\<close>

definition plainRuntime :: "string \<Rightarrow> Runtime" where
  "plainRuntime nm = \<lparr>character = Some \<lparr>characterName = nm, system = None\<rparr>,
     modelProvider = Some \<lparr>hasGenerateText = True\<rparr>\<rparr>"

definition thinkTank :: runtimes where
  "thinkTank = map (\<lambda>nm. (nm, plainRuntime nm)) defaultAgentSequence"




definition draws :: rnd where
  "draws = (\<lambda>n. if n = 0 then 1/2 else 9/10)"



text \<open>The context of a session after its first message.\<close>

definition firstTurn :: ConversationContext where
  "firstTurn = newContext\<lparr>turn := 1, userMessage := Some ''Tell me more''\<rparr>"

text \<open>A manager that has seen no session, and a generation capability whose every call is
  rejected.\<close>

definition freshState :: ManagerState where
  "freshState = \<lparr>sessionContexts = (\<lambda>s. None), sessionTopics = (\<lambda>s. None), randoms = draws,
     generateCalls = 0\<rparr>"

definition alwaysRejected :: generator where
  "alwaysRejected = (\<lambda>n a prompt. Rejected)"

section \<open>Properties of the matcher\<close>

lemma cons_suffix: "\<exists>u. xs = u @ r \<Longrightarrow> \<exists>u. x # xs = u @ r"
  by (metis append_Cons)

lemma rxm_suffix: "rxm ic k p s = Some r \<Longrightarrow> \<exists>u. s = u @ r"
proof (induction ic k p s arbitrary: r rule: rxm.induct)
  case (1 ic p s)
  then show ?case by simp
next
  case (2 ic c k p s)
  then show ?case by (cases s) (auto split: if_splits intro!: cons_suffix)
next
  case (3 ic k p s)
  then show ?case by (cases s) (auto split: if_splits intro!: cons_suffix)
next
  case (4 ic neg items k p s)
  then show ?case by (cases s) (auto split: if_splits intro!: cons_suffix)
next
  case (7 ic a b k p s)
  then show ?case by (auto split: option.splits)
next
  case (8 ic a k p s)
  then show ?case by (auto split: option.splits)
qed (auto split: if_splits)

lemma rxm_matched: "rxm ic k p s = Some r \<Longrightarrow> s = take (length s - length r) s @ r"
  by (drule rxm_suffix) auto

lemma search_parts: "search ic r p s = Some (pre, mt, rest) \<Longrightarrow> s = pre @ mt @ rest"
proof (induction s arbitrary: p pre)
  case Nil
  then show ?case by (auto split: option.splits)
next
  case (Cons x xs)
  show ?case
  proof (cases "rxm ic [r] p (x # xs)")
    case None
    with Cons.prems obtain pre' where "search ic r (Some x) xs = Some (pre', mt, rest)" "pre = x # pre'"
      by (auto split: option.splits)
    with Cons.IH show ?thesis by auto
  next
    case (Some a)
    with Cons.prems have "pre = []" "mt = take (length (x # xs) - length rest) (x # xs)" "a = rest"
      by auto
    with rxm_matched [OF Some] show ?thesis by simp
  qed
qed

text \<open>A match of \<^verbatim>\<open>/.*[.!?]/\<close> ends with one of the three characters.\<close>

lemma star_any_terminator:
  "rxm False [Star Any, Cls False [CChr CHR ''.'', CChr CHR ''!'', CChr CHR ''?'']] p s = Some r \<Longrightarrow>
   \<exists>u t. s = u @ t # r \<and> isTerminator t"
proof (induction s arbitrary: p)
  case Nil
  then show ?case by simp
next
  case (Cons x xs)
  let ?T = "Cls False [CChr CHR ''.'', CChr CHR ''!'', CChr CHR ''?'']"
  show ?case
  proof (cases "\<not> isLineTerminator x \<and> rxm False [Star Any, ?T] (Some x) xs \<noteq> None")
    case True
    with Cons.prems have "rxm False [Star Any, ?T] (Some x) xs = Some r"
      by (auto split: option.splits)
    from Cons.IH [OF this] obtain u t where "xs = u @ t # r" "isTerminator t" by blast
    then have "x # xs = (x # u) @ t # r \<and> isTerminator t" by simp
    then show ?thesis by blast
  next
    case False
    with Cons.prems have "rxm False [?T] p (x # xs) = Some r"
      by (auto split: option.splits if_splits)
    then have "x # xs = [] @ x # r \<and> isTerminator x"
      by (auto simp: clsMatch_def eqChar_def isTerminator_def split: if_splits)
    then show ?thesis by blast
  qed
qed

lemma sentenceEnd_match:
  assumes "matchFirst False sentenceEnd s = Some mt"
  shows "length mt \<le> length s \<and> mt \<noteq> [] \<and> isTerminator (last mt)"
proof -
  from assms obtain pre rest where sr: "search False sentenceEnd None s = Some (pre, mt, rest)"
    by (auto simp: matchFirst_def split: option.splits)
  have "\<And>p pre. search False sentenceEnd p s = Some (pre, mt, rest) \<Longrightarrow> mt \<noteq> [] \<and> isTerminator (last mt)"
  proof (induction s)
    case Nil
    then show ?case by (simp add: sentenceEnd_def)
  next
    case (Cons x xs)
    show ?case
    proof (cases "rxm False [sentenceEnd] p (x # xs)")
      case None
      with Cons.prems obtain pre' where "search False sentenceEnd (Some x) xs = Some (pre', mt, rest)"
        by (auto split: option.splits)
      with Cons.IH show ?thesis by blast
    next
      case (Some a)
      with Cons.prems have mt: "mt = take (length (x # xs) - length rest) (x # xs)" and a: "a = rest"
        by auto
      from Some a have "rxm False [Star Any, Cls False [CChr CHR ''.'', CChr CHR ''!'', CChr CHR ''?'']]
          p (x # xs) = Some rest"
        by (simp add: sentenceEnd_def)
      from star_any_terminator [OF this] obtain u t where ut: "x # xs = u @ t # rest" "isTerminator t"
        by blast
      then have "length (x # xs) - length rest = length (u @ [t])"
        by (metis add_diff_cancel_right' append.assoc append_Cons append_Nil length_append)
      with ut mt have "mt = u @ [t]"
        by (metis append.assoc append_Cons append_Nil append_eq_conv_conj)
      with ut show ?thesis by simp
    qed
  qed
  from this [OF sr] search_parts [OF sr] show ?thesis by auto
qed

section \<open>Properties of trimming\<close>

lemma newline_white: "isWhiteSpace newline"
  by code_simp


lemma length_trim: "length (trim s) \<le> length s"
  unfolding trim_def
  by (metis length_dropWhile_le length_rev le_trans)

lemma trim_blankLine: "trim (u @ blankLine) = trim u"
proof (cases "\<forall>x\<in>set u. isWhiteSpace x")
  case True
  then have "\<forall>x\<in>set (u @ blankLine). isWhiteSpace x"
    by (simp add: blankLine_def newline_white)
  then have "dropWhile isWhiteSpace (u @ blankLine) = []"
    by (simp only: dropWhile_eq_Nil_conv)
  moreover from True have "dropWhile isWhiteSpace u = []"
    by (simp only: dropWhile_eq_Nil_conv)
  ultimately show ?thesis by (metis trim_def)
next
  case False
  then obtain x where "x \<in> set u" "\<not> isWhiteSpace x" by blast
  then have "dropWhile isWhiteSpace (u @ blankLine) = dropWhile isWhiteSpace u @ blankLine"
    by (rule dropWhile_append1)
  then show ?thesis by (simp add: trim_def blankLine_def newline_white)
qed


section \<open>Properties of the length adjustment\<close>

lemma preserveParagraphs_shape:
  assumes "0 \<le> L"
    and "result = [] \<or> (\<exists>u. result = u @ blankLine \<and> of_nat (length u) \<le> L)"
  shows "preserveParagraphs L result ps = [] \<or>
         (\<exists>u. preserveParagraphs L result ps = u @ blankLine \<and> of_nat (length u) \<le> L)"
  using assms(2)
proof (induction ps arbitrary: result)
  case Nil
  then show ?case by simp
next
  case (Cons p ps)
  show ?case
  proof (cases "of_nat (length (result @ p)) \<le> L")
    case True
    then have "result @ p @ blankLine = [] \<or>
      (\<exists>u. result @ p @ blankLine = u @ blankLine \<and> of_nat (length u) \<le> L)"
      by (intro disjI2 exI [of _ "result @ p"]) simp
    from Cons.IH [OF this] True show ?thesis by simp
  next
    case False
    let ?rem = "L - of_nat (length result)"
    show ?thesis
    proof (cases "?rem > 80")
      case r: True
      show ?thesis
      proof (cases "matchFirst False sentenceEnd (take (nat \<lfloor>?rem\<rfloor>) p)")
        case None
        with False r Cons.prems show ?thesis by (simp add: Let_def)
      next
        case (Some ls)
        from sentenceEnd_match [OF Some] have "length ls \<le> nat \<lfloor>?rem\<rfloor>" by simp
        then have "(of_nat (length ls) :: rat) \<le> of_nat (nat \<lfloor>?rem\<rfloor>)"
          by (simp only: of_nat_le_iff)
        also from r have "\<dots> \<le> ?rem" by simp
        finally have "of_nat (length (result @ ls)) \<le> L" by simp
        then have "\<exists>u. result @ ls @ blankLine = u @ blankLine \<and> of_nat (length u) \<le> L"
          by (intro exI [of _ "result @ ls"]) simp
        with False r Some show ?thesis by (simp add: Let_def)
      qed
    next
      case r: False
      with False Cons.prems show ?thesis by (simp add: Let_def)
    qed
  qed
qed

lemma preserveParagraphs_length:
  assumes "0 \<le> L"
  shows "of_nat (length (trim (preserveParagraphs L [] ps))) \<le> L"
proof -
  from preserveParagraphs_shape [OF assms, of "[]" ps]
  consider "preserveParagraphs L [] ps = []"
    | u where "preserveParagraphs L [] ps = u @ blankLine" "of_nat (length u) \<le> L"
    by auto
  then show ?thesis
  proof cases
    case 1
    with assms show ?thesis by (simp add: trim_def)
  next
    case 2
    have "(of_nat (length (trim u)) :: rat) \<le> of_nat (length u)"
      using length_trim [of u] by (simp only: of_nat_le_iff)
    with 2 show ?thesis by (simp add: trim_blankLine)
  qed
qed

lemma trimToLimit_length:
  assumes "0 \<le> L" and "of_nat (length t) > L"
  shows "of_nat (length (trimToLimit L t)) \<le> L"
proof (cases "matchFirst False sentenceEnd (take (nat \<lfloor>L\<rfloor>) t)")
  case None
  with assms preserveParagraphs_length [OF assms(1)] show ?thesis
    by (simp add: trimToLimit_def Let_def)
next
  case (Some ls)
  from sentenceEnd_match [OF Some] have "length ls \<le> nat \<lfloor>L\<rfloor>" by simp
  with length_trim [of ls] have "length (trim ls) \<le> nat \<lfloor>L\<rfloor>" by simp
  then have "(of_nat (length (trim ls)) :: rat) \<le> of_nat (nat \<lfloor>L\<rfloor>)"
    by (simp only: of_nat_le_iff)
  also from assms(1) have "\<dots> \<le> L" by simp
  finally have "of_nat (length (trim ls)) \<le> L" .
  with assms Some preserveParagraphs_length [OF assms(1)] show ?thesis
    by (simp add: trimToLimit_def Let_def)
qed

lemma trimToLimit_short: "of_nat (length t) \<le> L \<Longrightarrow> trimToLimit L t = t"
  by (simp add: trimToLimit_def)

lemma trimToLimit_within: "0 \<le> L \<Longrightarrow> of_nat (length (trimToLimit L t)) \<le> max L (of_nat (length t))"
  by (metis le_max_iff_disj linorder_not_le trimToLimit_length trimToLimit_short)


lemma charLimitOf_factor:
  "\<exists>f. 1/2 \<le> f \<and> f \<le> 161/100 \<and>
       charLimitOf t a sig r1 r2 = baseLimit a * f * (0.85 + r2 * 0.3)"
proof -
  define B where "B = (r1 < briefResponseChance sig)"
  define D where "D = (test True wantsDetailedRx (toLowerCase (sigUserMessage sig)) \<or>
                       test True isComplexTopicRx (toLowerCase (sigUserMessage sig)))"
  define T where "T = test True isTechnicalRx t"
  define E where "E = ((if sigTurn sig = 0 then 1 else sigTurn sig) \<le> 2)"
  define f1 :: rat where "f1 =
    (if B then (if a = ''Analyst Alex'' then 0.5 else if a = ''Curious Clara'' then 0.6 else 0.55)
     else if D then (if a = ''Analyst Alex'' \<and> T then 1.4 else if a = ''Curious Clara'' then 1.3 else 1.25)
     else if sigDirectlyAddressed sig then 1.2 else if E then 1.1 else 1)"
  define f2 :: rat where "f2 =
    (if T then (if a = ''Analyst Alex'' then 1.15 else if a = ''Strategic Sam'' then 1.05 else 1) else 1)"
  have s1: "(if B then (if a = ''Analyst Alex'' then c * 0.5 else if a = ''Curious Clara'' then c * 0.6 else c * 0.55)
     else if D then (if a = ''Analyst Alex'' \<and> T then c * 1.4 else if a = ''Curious Clara'' then c * 1.3 else c * 1.25)
     else if sigDirectlyAddressed sig then c * 1.2 else if E then c * 1.1 else c) = c * f1" for c :: rat
    unfolding f1_def by simp
  have s2: "(if T then (if a = ''Analyst Alex'' then c * 1.15 else if a = ''Strategic Sam'' then c * 1.05 else c) else c)
     = c * f2" for c :: rat
    unfolding f2_def by simp
  have eq: "charLimitOf t a sig r1 r2 = baseLimit a * (f1 * f2) * (0.85 + r2 * 0.3)"
    unfolding charLimitOf_def Let_def
    unfolding B_def [symmetric] D_def [symmetric] T_def [symmetric] E_def [symmetric]
    unfolding s1 s2 by (simp only: mult.assoc)
  have b1: "1/2 \<le> f1 \<and> f1 \<le> 7/5" unfolding f1_def by simp
  have b2: "1 \<le> f2 \<and> f2 \<le> 23/20" unfolding f2_def by simp
  from b1 b2 have "1/2 * 1 \<le> f1 * f2" by (intro mult_mono) simp_all
  moreover from b1 b2 have "f1 * f2 \<le> 7/5 * (23/20)" by (intro mult_mono) simp_all
  ultimately have "1/2 \<le> f1 * f2 \<and> f1 * f2 \<le> 161/100" by simp
  with eq show ?thesis by blast
qed

lemma baseLimit_bounds: "450 \<le> baseLimit a \<and> baseLimit a \<le> 1200"
  by (simp add: baseLimit_def baseLimits_def)



lemma charLimitOf_lower:
  assumes "0 \<le> r2"
  shows "191 \<le> charLimitOf t a sig r1 r2"
proof -
  from charLimitOf_factor [of t a sig r1 r2] obtain f where f: "1/2 \<le> f" "f \<le> 161/100"
    "charLimitOf t a sig r1 r2 = baseLimit a * f * (0.85 + r2 * 0.3)" by blast
  have m: "450 * (1/2) \<le> baseLimit a * f"
    by (rule mult_mono) (use baseLimit_bounds [of a] f in simp_all)
  from assms have j: "(0.85 :: rat) \<le> 0.85 + r2 * 0.3" by simp
  have "450 * (1/2) * 0.85 \<le> baseLimit a * f * (0.85 + r2 * 0.3)"
    by (rule mult_mono) (use m j in simp_all)
  then show ?thesis unfolding f(3) by simp
qed

section \<open>The length adjustment on two long texts\<close>
















section \<open>Texts in which a pattern has no match\<close>











section \<open>Texts that the cleanup leaves as they are\<close>








section \<open>Properties of the loop over the responding agents\<close>

lemma generateWithRetry_rejected:
  assumes "\<forall>n a p. g n a p = Rejected"
  shows "generateWithRetry g a p k calls = (None, calls + k)"
  using assms by (induction k arbitrary: calls) simp_all

lemma processAgent_step:
  "\<exists>new es.
     responses (processAgent rts g msg pr a) = responses pr @ new \<and>
     length new \<le> 1 \<and>
     (\<forall>x\<in>set new.
        (agent x = a \<or> (\<exists>r ch. map_of rts a = Some r \<and> character r = Some ch \<and> agent x = characterName ch)) \<and>
        (message x = troubleText \<or>
         (\<exists>cx rs'. message x = fst (processResponse fallbackText a cx rs')) \<or>
         (\<exists>t u k n. generateWithRetry g a t MAX_ATTEMPTS k = (Some u, n)))) \<and>
     lastUserMessage (current (processAgent rts g msg pr a)) = lastUserMessage (current pr) \<and>
     userMessage (current (processAgent rts g msg pr a)) = userMessage (current pr) \<and>
     turn (current (processAgent rts g msg pr a)) = turn (current pr) \<and>
     messageHistory (current (processAgent rts g msg pr a)) = messageHistory (current pr) @ es \<and>
     (\<forall>e\<in>set es. role e = RoleAssistant \<and> name e = Some a)"
proof -
  have same: ?thesis if "processAgent rts g msg pr a = pr"
    by (intro exI [of _ "[]"] conjI) (simp_all add: that)
  show ?thesis
  proof (cases "map_of rts a")
    case None
    then show ?thesis by (intro same) (simp add: processAgent_def)
  next
    case (Some runtime)
    show ?thesis
    proof (cases "canGenerate runtime")
      case False
      with Some show ?thesis by (intro same) (simp add: processAgent_def)
    next
      case True
      let ?ctx = "(current pr)\<lparr>lastAgent :=
                           (if responses pr = [] then None else Some (agent (last (responses pr))))\<rparr>"
      show ?thesis
      proof (cases "buildAgentPrompt rts msg a (responses pr)")
        case (Inl e)
        with Some True have "processAgent rts g msg pr a =
          pr\<lparr>current := ?ctx, responses := responses pr @ [\<lparr>agent = a, message = troubleText\<rparr>]\<rparr>"
          by (simp add: processAgent_def Let_def)
        then show ?thesis
          by (intro exI [of _ "[\<lparr>agent = a, message = troubleText\<rparr>]"] exI [of _ "[]"]) simp
      next
        case (Inr prompt)
        obtain generated calls where gw:
          "generateWithRetry g a prompt MAX_ATTEMPTS (callsMade pr) = (generated, calls)"
          by (cases "generateWithRetry g a prompt MAX_ATTEMPTS (callsMade pr)")
        let ?raw = "case generated of None \<Rightarrow> fallbackText | Some t \<Rightarrow> t"
        obtain cleaned rs where nrm: "processResponse ?raw a (Some ?ctx) (randomsLeft pr) = (cleaned, rs)"
          by (cases "processResponse ?raw a (Some ?ctx) (randomsLeft pr)")
        from Inr Some obtain ch where ch: "character runtime = Some ch"
          by (auto simp: buildAgentPrompt_def split: option.splits)
        let ?c = "?ctx\<lparr>messageHistory := messageHistory ?ctx @
                    [\<lparr>role = RoleAssistant, content = cleaned, name = Some a\<rparr>]\<rparr>"
        let ?x = "\<lparr>agent = characterName ch, message = cleaned\<rparr>"
        from Some True Inr gw nrm ch have eq: "processAgent rts g msg pr a =
          pr\<lparr>current := ?c, randomsLeft := rs, callsMade := calls, responses := responses pr @ [?x]\<rparr>"
          by (simp add: processAgent_def Let_def)
        have src: "(\<exists>cx rs'. message ?x = fst (processResponse fallbackText a cx rs')) \<or>
         (\<exists>t u k n. generateWithRetry g a t MAX_ATTEMPTS k = (Some u, n))"
        proof (cases generated)
          case None
          with nrm have "message ?x = fst (processResponse fallbackText a (Some ?ctx) (randomsLeft pr))"
            by simp
          then show ?thesis by blast
        next
          case (Some u)
          with gw show ?thesis by blast
        qed
        have own: "\<exists>r ch'. map_of rts a = Some r \<and> character r = Some ch' \<and> agent ?x = characterName ch'"
          using Some ch by simp
        show ?thesis
        proof (intro exI [of _ "[?x]"]
              exI [of _ "[\<lparr>role = RoleAssistant, content = cleaned, name = Some a\<rparr>]"] conjI)
          show "\<forall>x\<in>set [?x].
             (agent x = a \<or> (\<exists>r ch. map_of rts a = Some r \<and> character r = Some ch \<and> agent x = characterName ch)) \<and>
             (message x = troubleText \<or>
              (\<exists>cx rs'. message x = fst (processResponse fallbackText a cx rs')) \<or>
              (\<exists>t u k n. generateWithRetry g a t MAX_ATTEMPTS k = (Some u, n)))"
            using src own by (simp only: list.set ball_simps) blast
        qed (simp_all add: eq)
      qed
    qed
  qed
qed

lemma foldl_responses:
  assumes "\<And>p a. a \<in> set as \<Longrightarrow>
             \<exists>new. responses (f p a) = responses p @ new \<and> length new \<le> 1 \<and> (\<forall>x\<in>set new. Q x)"
  shows "\<exists>new. responses (foldl f p0 as) = responses p0 @ new \<and> length new \<le> length as \<and>
           (\<forall>x\<in>set new. Q x)"
  using assms
proof (induction as arbitrary: p0)
  case Nil
  show ?case by simp
next
  case (Cons a as)
  from Cons.prems [of a p0] obtain new0 where s:
    "responses (f p0 a) = responses p0 @ new0" "length new0 \<le> 1" "\<forall>x\<in>set new0. Q x"
    by auto
  from Cons.IH [of "f p0 a"] Cons.prems obtain new where i:
    "responses (foldl f (f p0 a) as) = responses (f p0 a) @ new" "length new \<le> length as"
    "\<forall>x\<in>set new. Q x"
    by auto
  from s i show ?case
    by (intro exI [of _ "new0 @ new"]) auto
qed

lemma foldl_history:
  assumes "\<And>p a. a \<in> set as \<Longrightarrow>
             \<exists>es. lastUserMessage (current (f p a)) = lastUserMessage (current p) \<and>
                  userMessage (current (f p a)) = userMessage (current p) \<and>
                  turn (current (f p a)) = turn (current p) \<and>
                  messageHistory (current (f p a)) = messageHistory (current p) @ es \<and>
                  (\<forall>e\<in>set es. role e = RoleAssistant)"
  shows "\<exists>es. lastUserMessage (current (foldl f p0 as)) = lastUserMessage (current p0) \<and>
              userMessage (current (foldl f p0 as)) = userMessage (current p0) \<and>
              turn (current (foldl f p0 as)) = turn (current p0) \<and>
              messageHistory (current (foldl f p0 as)) = messageHistory (current p0) @ es \<and>
              (\<forall>e\<in>set es. role e = RoleAssistant)"
  using assms
proof (induction as arbitrary: p0)
  case Nil
  show ?case by simp
next
  case (Cons a as)
  from Cons.prems [of a p0] obtain es0 where s:
    "lastUserMessage (current (f p0 a)) = lastUserMessage (current p0)"
    "userMessage (current (f p0 a)) = userMessage (current p0)"
    "turn (current (f p0 a)) = turn (current p0)"
    "messageHistory (current (f p0 a)) = messageHistory (current p0) @ es0"
    "\<forall>e\<in>set es0. role e = RoleAssistant"
    by auto
  from Cons.IH [of "f p0 a"] Cons.prems obtain es where i:
    "lastUserMessage (current (foldl f (f p0 a) as)) = lastUserMessage (current (f p0 a))"
    "userMessage (current (foldl f (f p0 a) as)) = userMessage (current (f p0 a))"
    "turn (current (foldl f (f p0 a) as)) = turn (current (f p0 a))"
    "messageHistory (current (foldl f (f p0 a) as)) = messageHistory (current (f p0 a)) @ es"
    "\<forall>e\<in>set es. role e = RoleAssistant"
    by auto
  from s i show ?case
    by (intro exI [of _ "es0 @ es"]) auto
qed

section \<open>Properties of the order resolution\<close>

lemma addressed_order:
  assumes "getDirectlyAddressedAgents msg
             (filter (\<lambda>nm. nm \<in> set (map fst rts)) defaultAgentSequence) \<noteq> []"
  shows "determineRespondingAgentsBy sel rts msg ctx rs =
           Inr (filter (addressed (toLowerCase msg))
                  (filter (\<lambda>nm. nm \<in> set (map fst rts)) defaultAgentSequence),
                ctx\<lparr>directlyAddressed := True\<rparr>, rs)"
proof -
  let ?available = "filter (\<lambda>nm. nm \<in> set (map fst rts)) defaultAgentSequence"
  have "?available \<noteq> []"
  proof
    assume "?available = []"
    then have "getDirectlyAddressedAgents msg ?available = []"
      by (simp only: getDirectlyAddressedAgents_def filter.simps)
    with assms show False by simp
  qed
  with assms show ?thesis
    by (simp add: determineRespondingAgentsBy_def Let_def getDirectlyAddressedAgents_def)
qed

lemma default_names:
  "firstNameOf ''Analyst Alex'' = Some ''Alex''" "toLowerCase ''Alex'' = ''alex''"
  "firstNameOf ''Curious Clara'' = Some ''Clara''" "toLowerCase ''Clara'' = ''clara''"
  "firstNameOf ''Strategic Sam'' = Some ''Sam''" "toLowerCase ''Sam'' = ''sam''"
  by code_simp+

lemma default_patterns:
  "\<exists>ps. directPatterns ''alex'' = Inr ps" "\<exists>ps. directPatterns ''clara'' = Inr ps"
  "\<exists>ps. directPatterns ''sam'' = Inr ps"
  by (simp_all add: directPatterns_def nameRx_def isSyntaxCharacter_def)

text \<open>With personas of the default sequence, no pattern of the selector fails to compile.\<close>

lemma mentioned_total:
  "set as \<subseteq> set defaultAgentSequence \<Longrightarrow>
   \<exists>m. getExplicitlyMentionedAgentsFrom ml acc as = Inr m"
proof (induction as arbitrary: acc)
  case Nil
  show ?case by simp
next
  case (Cons a as)
  then have as: "set as \<subseteq> set defaultAgentSequence" by simp
  note IH = Cons.IH [OF as]
  from Cons.prems consider "a = ''Analyst Alex''" | "a = ''Curious Clara''" | "a = ''Strategic Sam''"
    by (auto simp: defaultAgentSequence_def)
  then show ?case
  proof cases
    case 1
    from default_patterns(1) obtain ps where "directPatterns ''alex'' = Inr ps" ..
    then show ?thesis
      unfolding 1 getExplicitlyMentionedAgentsFrom.simps Let_def default_names option.case
      by (simp add: IH del: getExplicitlyMentionedAgentsFrom.simps)
  next
    case 2
    from default_patterns(2) obtain ps where "directPatterns ''clara'' = Inr ps" ..
    then show ?thesis
      unfolding 2 getExplicitlyMentionedAgentsFrom.simps Let_def default_names option.case
      by (simp add: IH del: getExplicitlyMentionedAgentsFrom.simps)
  next
    case 3
    from default_patterns(3) obtain ps where "directPatterns ''sam'' = Inr ps" ..
    then show ?thesis
      unfolding 3 getExplicitlyMentionedAgentsFrom.simps Let_def default_names option.case
      by (simp add: IH del: getExplicitlyMentionedAgentsFrom.simps)
  qed
qed

lemma selectAgents_total:
  assumes "set av \<subseteq> set defaultAgentSequence"
  shows "\<exists>r. selectAgents msg av ctx rs = Inr r"
proof -
  from mentioned_total [OF assms, of "toLowerCase msg" "[]"]
  obtain m where "getExplicitlyMentionedAgents (toLowerCase msg) av = Inr m"
    by (auto simp: getExplicitlyMentionedAgents_def)
  then show ?thesis
    by (simp add: selectAgents_def Let_def split: prod.splits)
qed

lemma determine_total: "\<exists>r. determineRespondingAgentsBy selectAgents rts msg ctx rs = Inr r"
proof -
  let ?av = "filter (\<lambda>nm. nm \<in> set (map fst rts)) defaultAgentSequence"
  have "set ?av \<subseteq> set defaultAgentSequence" by auto
  from selectAgents_total [OF this, of msg ctx rs]
  obtain r where "selectAgents msg ?av ctx rs = Inr r" ..
  then show ?thesis
    by (cases r) (simp add: determineRespondingAgentsBy_def Let_def)
qed

lemma determine_context:
  assumes "determineRespondingAgentsBy sel rts msg ctx rs = Inr (agents, ctx', rs')"
  shows "lastUserMessage ctx' = lastUserMessage ctx \<and> userMessage ctx' = userMessage ctx \<and>
         turn ctx' = turn ctx \<and> messageHistory ctx' = messageHistory ctx"
proof -
  let ?av = "filter (\<lambda>nm. nm \<in> set (map fst rts)) defaultAgentSequence"
  have "ctx' = ctx \<or> ctx' = ctx\<lparr>directlyAddressed := True\<rparr>"
  proof (cases "length ?av = 0")
    case True
    with assms show ?thesis by (simp add: determineRespondingAgentsBy_def)
  next
    case av: False
    show ?thesis
    proof (cases "length (getDirectlyAddressedAgents msg ?av) > 0")
      case True
      with av assms show ?thesis by (simp add: determineRespondingAgentsBy_def Let_def)
    next
      case False
      with av assms show ?thesis
        by (cases "sel msg ?av ctx rs") (auto simp: determineRespondingAgentsBy_def Let_def)
    qed
  qed
  then show ?thesis by auto
qed

section \<open>Properties of a turn\<close>

lemma beginTurn_snd:
  "snd (beginTurn now msg topics c0) =
     c0\<lparr>messageHistory := messageHistory c0 @
           (if topicChanged c0 msg
            then [\<lparr>role = RoleSystem, content = ''--- Topic change ---'', name = None\<rparr>] else []) @
           [\<lparr>role = RoleUser, content = msg, name = None\<rparr>],
        lastUserMessage := userMessage c0, userMessage := Some msg, turn := turn c0 + 1\<rparr>"
  by (cases "topicChanged c0 msg") (simp_all add: beginTurn_def handleTopicChange_def Let_def)

lemma beginTurn_context:
  assumes "beginTurn now msg topics c0 = (tp, c1)"
  shows "lastUserMessage c1 = userMessage c0 \<and> userMessage c1 = Some msg \<and> turn c1 = turn c0 + 1 \<and>
         messageHistory c1 = messageHistory c0 @
           (if topicChanged c0 msg
            then [\<lparr>role = RoleSystem, content = ''--- Topic change ---'', name = None\<rparr>] else []) @
           [\<lparr>role = RoleUser, content = msg, name = None\<rparr>]"
proof -
  from assms have "c1 = snd (beginTurn now msg topics c0)" by (simp only: snd_conv)
  then show ?thesis unfolding beginTurn_snd by (simp only:) simp
qed

lemma processMessageBy_unfold:
  assumes "beginTurn now msg (sessionTopics st sid) (getOrCreateContext st sid) = (tp, c1)"
    and "determineRespondingAgentsBy sel rts msg c1 (randoms st) = Inr (agents, c2, rs)"
    and "p = foldl (processAgent rts g msg)
               \<lparr>responses = [], current = c2, randomsLeft = rs, callsMade = generateCalls st\<rparr> agents"
  shows "processMessageBy sel rts g now msg sid st =
           (Inr (if length (responses p) = 0 then [systemFallback] else responses p),
            st\<lparr>sessionContexts := (sessionContexts st)(sid := Some (current p)),
               sessionTopics := (sessionTopics st)(sid := Some tp),
               randoms := randomsLeft p,
               generateCalls := callsMade p\<rparr>)"
  by (simp add: processMessageBy_def assms Let_def)

lemma processMessageBy_failed:
  assumes "beginTurn now msg (sessionTopics st sid) (getOrCreateContext st sid) = (tp, c1)"
    and "determineRespondingAgentsBy sel rts msg c1 (randoms st) = Inl e"
  shows "processMessageBy sel rts g now msg sid st =
           (Inl e,
            st\<lparr>sessionContexts := (sessionContexts st)(sid := Some c1),
               sessionTopics := (sessionTopics st)(sid := Some tp)\<rparr>)"
  by (simp add: processMessageBy_def assms Let_def)

text \<open>The context of the session after a turn: the previous user message is what was
  the current one, and the history has grown by a topic-change marker, when a topic change
  was found, the message of the user and entries of the assistants.\<close>

lemma processMessageBy_context:
  "\<exists>c' es.
     sessionContexts (snd (processMessageBy sel rts g now msg sid st)) sid = Some c' \<and>
     lastUserMessage c' = userMessage (getOrCreateContext st sid) \<and>
     userMessage c' = Some msg \<and>
     turn c' = turn (getOrCreateContext st sid) + 1 \<and>
     messageHistory c' = messageHistory (getOrCreateContext st sid) @
       (if topicChanged (getOrCreateContext st sid) msg
        then [\<lparr>role = RoleSystem, content = ''--- Topic change ---'', name = None\<rparr>] else []) @
       [\<lparr>role = RoleUser, content = msg, name = None\<rparr>] @ es \<and>
     (\<forall>e\<in>set es. role e = RoleAssistant)"
proof -
  let ?c0 = "getOrCreateContext st sid"
  obtain tp c1 where bt: "beginTurn now msg (sessionTopics st sid) ?c0 = (tp, c1)"
    by (cases "beginTurn now msg (sessionTopics st sid) ?c0")
  note c1 = beginTurn_context [OF bt]
  show ?thesis
  proof (cases "determineRespondingAgentsBy sel rts msg c1 (randoms st)")
    case (Inl e)
    from processMessageBy_failed [OF bt Inl, of g] c1 show ?thesis
      by (intro exI [of _ c1] exI [of _ "[]"]) simp
  next
    case (Inr r)
    obtain agents c2 rs where r: "r = (agents, c2, rs)" by (cases r)
    note d = Inr [unfolded r]
    note c2 = determine_context [OF d]
    define p where "p = foldl (processAgent rts g msg)
               \<lparr>responses = [], current = c2, randomsLeft = rs, callsMade = generateCalls st\<rparr> agents"
    have "\<exists>es. lastUserMessage (current (processAgent rts g msg q a)) = lastUserMessage (current q) \<and>
                  userMessage (current (processAgent rts g msg q a)) = userMessage (current q) \<and>
                  turn (current (processAgent rts g msg q a)) = turn (current q) \<and>
                  messageHistory (current (processAgent rts g msg q a)) = messageHistory (current q) @ es \<and>
                  (\<forall>e\<in>set es. role e = RoleAssistant)" for q a
      using processAgent_step [of rts g msg q a] by (elim exE conjE) (rule exI, auto)
    from foldl_history [of agents "processAgent rts g msg", OF this]
    obtain es where es:
      "lastUserMessage (current p) = lastUserMessage c2" "userMessage (current p) = userMessage c2"
      "turn (current p) = turn c2" "messageHistory (current p) = messageHistory c2 @ es"
      "\<forall>e\<in>set es. role e = RoleAssistant"
      unfolding p_def by (metis Progress.select_convs(2))
    from processMessageBy_unfold [OF bt d p_def] c1 c2 es show ?thesis
      by (intro exI [of _ "current p"] exI [of _ es]) simp
  qed
qed


section \<open>Direct-address precedence\<close>

text \<open>
  C1. When the coarse addressing check of the orchestrator finds exactly one directly
  addressed persona \<open>a\<close> and the message has neither "everyone" nor "all" in it, the
  speaking order is \<open>[a]\<close> and no random value is used, whatever else the message
  contains. The result is the same for every selector put in the place of
  \<^verbatim>\<open>AgentSelector.selectAgents\<close>, which therefore is not called. \<^verbatim>\<open>processMessage\<close>
  returns one response: that of \<open>a\<close> (under the name of its character, or under \<open>a\<close> when
  its processing failed), or the apology of the system when \<open>a\<close> has no usable model provider.
\<close>

theorem direct_address_precedence:
  assumes "getDirectlyAddressedAgents msg
             (filter (\<lambda>nm. nm \<in> set (map fst rts)) defaultAgentSequence) = [a]"
    and "\<not> includesStr (toLowerCase msg) ''everyone''"
    and "\<not> includesStr (toLowerCase msg) ''all''"
  shows "determineRespondingAgentsBy sel rts msg ctx rs =
           Inr ([a], ctx\<lparr>directlyAddressed := True\<rparr>, rs) \<and>
         processMessageBy sel rts g now msg sid st = processMessage rts g now msg sid st \<and>
         (\<exists>x st'. processMessage rts g now msg sid st = (Inr [x], st') \<and>
            (x = systemFallback \<or> agent x = a \<or>
             (\<exists>r ch. map_of rts a = Some r \<and> character r = Some ch \<and> agent x = characterName ch)))"
proof -
  from assms(1) have ne: "getDirectlyAddressedAgents msg
             (filter (\<lambda>nm. nm \<in> set (map fst rts)) defaultAgentSequence) \<noteq> []" by simp
  have d: "determineRespondingAgentsBy s rts msg c r = Inr ([a], c\<lparr>directlyAddressed := True\<rparr>, r)"
    for s c r
    using addressed_order [OF ne, of s c r] assms(1) by (simp add: getDirectlyAddressedAgents_def)
  obtain tp c1 where bt: "beginTurn now msg (sessionTopics st sid) (getOrCreateContext st sid) = (tp, c1)"
    by (cases "beginTurn now msg (sessionTopics st sid) (getOrCreateContext st sid)")
  define p where "p = foldl (processAgent rts g msg)
     \<lparr>responses = [], current = c1\<lparr>directlyAddressed := True\<rparr>, randomsLeft = randoms st,
      callsMade = generateCalls st\<rparr> [a]"
  note u = processMessageBy_unfold [OF bt d p_def]
  have same: "processMessageBy sel rts g now msg sid st = processMessage rts g now msg sid st"
    unfolding processMessage_def by (simp only: u)
  from processAgent_step [of rts g msg
      "\<lparr>responses = [], current = c1\<lparr>directlyAddressed := True\<rparr>, randomsLeft = randoms st,
        callsMade = generateCalls st\<rparr>" a]
  obtain new where new: "responses p = new" "length new \<le> 1"
    "\<forall>x\<in>set new. agent x = a \<or>
       (\<exists>r ch. map_of rts a = Some r \<and> character r = Some ch \<and> agent x = characterName ch)"
    unfolding p_def by (elim exE conjE) auto
  let ?rsp = "if length (responses p) = 0 then [systemFallback] else responses p"
  have "\<exists>x. ?rsp = [x] \<and> (x = systemFallback \<or> agent x = a \<or>
       (\<exists>r ch. map_of rts a = Some r \<and> character r = Some ch \<and> agent x = characterName ch))"
  proof (cases new)
    case Nil
    with new(1) show ?thesis by simp
  next
    case (Cons x xs)
    with new(2) have "new = [x]" by simp
    with new(1,3) show ?thesis by simp
  qed
  then obtain x where x: "?rsp = [x]" "x = systemFallback \<or> agent x = a \<or>
       (\<exists>r ch. map_of rts a = Some r \<and> character r = Some ch \<and> agent x = characterName ch)"
    by blast
  from u [of selectAgents] x(1) have "processMessage rts g now msg sid st = (Inr [x],
            st\<lparr>sessionContexts := (sessionContexts st)(sid := Some (current p)),
               sessionTopics := (sessionTopics st)(sid := Some tp),
               randoms := randomsLeft p,
               generateCalls := callsMade p\<rparr>)"
    unfolding processMessage_def by (simp only:)
  with x(2) d same show ?thesis by blast
qed

theorem direct_address_precedence_witness:
  "getDirectlyAddressedAgents ''Alex, what about this solana token?''
     (filter (\<lambda>nm. nm \<in> set (map fst thinkTank)) defaultAgentSequence) = [''Analyst Alex''] \<and>
   \<not> includesStr (toLowerCase ''Alex, what about this solana token?'') ''everyone'' \<and>
   \<not> includesStr (toLowerCase ''Alex, what about this solana token?'') ''all'' \<and>
   determineRespondingAgentsBy selectAgents thinkTank ''Alex, what about this solana token?'' newContext draws =
     Inr ([''Analyst Alex''], newContext\<lparr>directlyAddressed := True\<rparr>, draws)"
proof -
  have a: "getDirectlyAddressedAgents ''Alex, what about this solana token?''
     (filter (\<lambda>nm. nm \<in> set (map fst thinkTank)) defaultAgentSequence) = [''Analyst Alex'']"
    by code_simp
  have b: "\<not> includesStr (toLowerCase ''Alex, what about this solana token?'') ''everyone''"
    by code_simp
  have c: "\<not> includesStr (toLowerCase ''Alex, what about this solana token?'') ''all''"
    by code_simp
  from direct_address_precedence [OF a b c, of selectAgents newContext draws] a b c show ?thesis
    by blast
qed

section \<open>Topic-change marker\<close>

text \<open>
  C2. The claim is that, after the user message \<open>What's the weather today?\<close>, processing
  \<open>Let's plan the quarterly budget allocation strategy\<close> appends a system entry
  \<open>--- Topic change ---\<close> to the history before the new user entry. The two messages do
  count as a change of topic for \<^verbatim>\<open>isNewTopic\<close>. But \<^verbatim>\<open>handleTopicChange\<close> runs before the
  context is updated with the current message, so it compares the current message with
  \<^verbatim>\<open>lastUserMessage\<close> as the previous turn left it: the message before the previous one.
  In a session that starts with these two messages there is no such message, and the
  history after the second turn has no system entry, while the context then holds the
  first message as \<^verbatim>\<open>lastUserMessage\<close>.
\<close>

theorem no_marker_on_second_message:
  assumes "sessionContexts st sid = None"
  shows "isNewTopic ''Let's plan the quarterly budget allocation strategy'' ''What's the weather today?'' \<and>
         (\<exists>c. sessionContexts
                (snd (processMessage rts g now2 ''Let's plan the quarterly budget allocation strategy'' sid
                   (snd (processMessage rts g now1 ''What's the weather today?'' sid st)))) sid = Some c \<and>
              userMessage c = Some ''Let's plan the quarterly budget allocation strategy'' \<and>
              lastUserMessage c = Some ''What's the weather today?'' \<and>
              list_all (\<lambda>e. role e \<noteq> RoleSystem) (messageHistory c))"
proof -
  let ?m1 = "''What's the weather today?''"
  let ?m2 = "''Let's plan the quarterly budget allocation strategy''"
  let ?st1 = "snd (processMessage rts g now1 ?m1 sid st)"
  have new: "isNewTopic ?m2 ?m1" by code_simp
  from assms have c0: "getOrCreateContext st sid = newContext"
    by (simp add: getOrCreateContext_def)
  from processMessageBy_context [of selectAgents rts g now1 ?m1 sid st]
  obtain c1 es1 where c1: "sessionContexts ?st1 sid = Some c1"
    "lastUserMessage c1 = None" "userMessage c1 = Some ?m1"
    "messageHistory c1 = [\<lparr>role = RoleUser, content = ?m1, name = None\<rparr>] @ es1"
    "\<forall>e\<in>set es1. role e = RoleAssistant"
    unfolding c0 processMessage_def [symmetric]
    by (auto simp: newContext_def topicChanged_def)
  from c1(1) have c0': "getOrCreateContext ?st1 sid = c1"
    by (simp add: getOrCreateContext_def)
  from c1(2) have tc: "\<not> topicChanged c1 ?m2" by (simp add: topicChanged_def)
  from processMessageBy_context [of selectAgents rts g now2 ?m2 sid ?st1]
  obtain c2 es2 where c2: "sessionContexts (snd (processMessage rts g now2 ?m2 sid ?st1)) sid = Some c2"
    "lastUserMessage c2 = Some ?m1" "userMessage c2 = Some ?m2"
    "messageHistory c2 = messageHistory c1 @ [\<lparr>role = RoleUser, content = ?m2, name = None\<rparr>] @ es2"
    "\<forall>e\<in>set es2. role e = RoleAssistant"
    unfolding c0' processMessage_def [symmetric] using tc c1(3)
    by auto
  from c1(4,5) c2(4,5) have "list_all (\<lambda>e. role e \<noteq> RoleSystem) (messageHistory c2)"
    by (auto simp: list_all_iff)
  with new c2 show ?thesis by blast
qed

theorem no_marker_on_second_message_witness:
  "sessionContexts freshState ''default'' = None \<and>
   (\<exists>c. sessionContexts
          (snd (processMessage thinkTank alwaysRejected 2 ''Let's plan the quarterly budget allocation strategy'' ''default''
             (snd (processMessage thinkTank alwaysRejected 1 ''What's the weather today?'' ''default'' freshState))))
          ''default'' = Some c \<and>
        list_all (\<lambda>e. role e \<noteq> RoleSystem) (messageHistory c))"
proof -
  have a: "sessionContexts freshState ''default'' = None"
    by (simp add: freshState_def)
  from no_marker_on_second_message [OF a, of thinkTank alwaysRejected 2 1] a show ?thesis
    by blast
qed

section \<open>Non-empty conversation\<close>

text \<open>
  C3. When every call of the generation capability is rejected, \<^verbatim>\<open>processMessage\<close> returns
  normally, with at least one response, for every roster, message, session and state. Each
  response is the apology of the system, the fallback of a persona whose processing
  failed, or the normalized fallback sentence of a persona whose generation failed.
\<close>

theorem processMessage_never_empty:
  assumes "\<forall>n a p. g n a p = Rejected"
  shows "\<exists>rsp st'. processMessage rts g now msg sid st = (Inr rsp, st') \<and> 1 \<le> length rsp \<and>
           list_all (\<lambda>x. x = systemFallback \<or> message x = troubleText \<or>
                      (\<exists>a cx rs. message x = fst (processResponse fallbackText a cx rs))) rsp"
proof -
  let ?Q = "\<lambda>x. x = systemFallback \<or> message x = troubleText \<or>
                      (\<exists>a cx rs. message x = fst (processResponse fallbackText a cx rs))"
  obtain tp c1 where bt: "beginTurn now msg (sessionTopics st sid) (getOrCreateContext st sid) = (tp, c1)"
    by (cases "beginTurn now msg (sessionTopics st sid) (getOrCreateContext st sid)")
  from determine_total [of rts msg c1 "randoms st"]
  obtain r where "determineRespondingAgentsBy selectAgents rts msg c1 (randoms st) = Inr r" ..
  moreover obtain agents c2 rs where "r = (agents, c2, rs)" by (cases r)
  ultimately have d: "determineRespondingAgentsBy selectAgents rts msg c1 (randoms st) = Inr (agents, c2, rs)"
    by simp
  define p where "p = foldl (processAgent rts g msg)
               \<lparr>responses = [], current = c2, randomsLeft = rs, callsMade = generateCalls st\<rparr> agents"
  have step: "\<exists>new. responses (processAgent rts g msg q a) = responses q @ new \<and> length new \<le> 1 \<and>
                (\<forall>x\<in>set new. ?Q x)" for q a
  proof -
    from processAgent_step [of rts g msg q a] obtain new where new:
      "responses (processAgent rts g msg q a) = responses q @ new" "length new \<le> 1"
      "\<forall>x\<in>set new. message x = troubleText \<or>
         (\<exists>cx rs'. message x = fst (processResponse fallbackText a cx rs')) \<or>
         (\<exists>t u k n. generateWithRetry g a t MAX_ATTEMPTS k = (Some u, n))"
      by (elim exE conjE) blast
    have "\<not> (\<exists>t u k n. generateWithRetry g a t MAX_ATTEMPTS k = (Some u, n))"
      by (simp add: generateWithRetry_rejected [OF assms])
    with new(3) have "\<forall>x\<in>set new. ?Q x" by blast
    with new(1,2) show ?thesis by blast
  qed
  from foldl_responses [of agents "processAgent rts g msg" ?Q
      "\<lparr>responses = [], current = c2, randomsLeft = rs, callsMade = generateCalls st\<rparr>", OF step]
  have new: "\<forall>x\<in>set (responses p). ?Q x"
    unfolding p_def by auto
  let ?rsp = "if length (responses p) = 0 then [systemFallback] else responses p"
  have "1 \<le> length ?rsp" by (cases "responses p") simp_all
  moreover from new have "list_all ?Q ?rsp" by (simp add: list_all_iff)
  moreover have "processMessage rts g now msg sid st = (Inr ?rsp,
            st\<lparr>sessionContexts := (sessionContexts st)(sid := Some (current p)),
               sessionTopics := (sessionTopics st)(sid := Some tp),
               randoms := randomsLeft p,
               generateCalls := callsMade p\<rparr>)"
    unfolding processMessage_def by (rule processMessageBy_unfold [OF bt d p_def])
  ultimately show ?thesis by blast
qed

theorem processMessage_never_empty_witness:
  "(\<forall>n a p. alwaysRejected n a p = Rejected) \<and>
   (\<exists>rsp st'. processMessage thinkTank alwaysRejected 0 ''Hello there'' ''default'' freshState = (Inr rsp, st') \<and>
      1 \<le> length rsp)"
proof -
  have a: "\<forall>n a p. alwaysRejected n a p = Rejected"
    by (simp add: alwaysRejected_def)
  from processMessage_never_empty [OF a, of thinkTank 0 "''Hello there''" "''default''" freshState] a
  show ?thesis by blast
qed

section \<open>Relationship reordering\<close>





section \<open>Length truncation\<close>








section \<open>Normalizing twice\<close>




section \<open>Removal of a leading parenthetical\<close>

text \<open>
  C7. For the persona Analyst Alex, whatever the context and the random values in [0, 1),
  the normalizer turns \<open>(smiles) I think this is important.\<close> into a text without
  parentheses, which however begins with the space that followed the parenthetical: no
  step after the removal trims the text, and the capitalization fix looks at that space.
  The output does not begin with \<open>I think this is important.\<close>
\<close>

theorem parenthetical_leaves_leading_space:
  assumes "0 \<le> random (advance rs)"
  shows "fst (processResponse ''(smiles) I think this is important.'' ''Analyst Alex'' g rs) =
           '' I think this is important.'' \<and>
         \<not> startsWith (fst (processResponse ''(smiles) I think this is important.'' ''Analyst Alex'' g rs))
             ''I think this is important.''"
proof -
  have c: "cleanup ''(smiles) I think this is important.'' ''Analyst Alex'' =
           Inr '' I think this is important.''"
    by code_simp
  from charLimitOf_lower [OF assms]
  have "of_nat (length '' I think this is important.'') \<le>
        charLimitOf '' I think this is important.'' ''Analyst Alex'' (signalsOf g)
          (random rs) (random (advance rs))"
    by (rule order_trans [rotated]) simp
  then have "fst (processResponse ''(smiles) I think this is important.'' ''Analyst Alex'' g rs) =
           '' I think this is important.''"
    by (simp only: processResponse_def c sum.case applyDynamicLengthAdjustment_def fst_conv
        trimToLimit_short)
  then show ?thesis by (simp add: startsWith_def)
qed

theorem parenthetical_leaves_leading_space_witness:
  "0 \<le> random (advance draws) \<and>
   fst (processResponse ''(smiles) I think this is important.'' ''Analyst Alex'' (Some firstTurn) draws) =
     '' I think this is important.''"
proof -
  have a: "0 \<le> random (advance draws)"
    by (simp add: random_def advance_def draws_def)
  from parenthetical_leaves_leading_space [OF a, of "Some firstTurn"] a show ?thesis
    by blast
qed

section \<open>Errors inside the normalizer\<close>



section \<open>Order resolution\<close>

text \<open>
  C9. Whenever the coarse addressing check of the orchestrator finds a directly addressed
  persona, \<^verbatim>\<open>determineRespondingAgents\<close> returns the addressed personas, in the order of
  the roster, whatever the selector is and whether or not one persona alone is addressed
  or the message has "everyone" or "all" in it: both branches of that test return the
  same list.
\<close>

theorem determineRespondingAgents_addressed:
  assumes "getDirectlyAddressedAgents msg
             (filter (\<lambda>nm. nm \<in> set (map fst rts)) defaultAgentSequence) \<noteq> []"
  shows "determineRespondingAgentsBy sel rts msg ctx rs =
           Inr (filter (addressed (toLowerCase msg))
                  (filter (\<lambda>nm. nm \<in> set (map fst rts)) defaultAgentSequence),
                ctx\<lparr>directlyAddressed := True\<rparr>, rs)"
  by (rule addressed_order [OF assms])

theorem determineRespondingAgents_addressed_witness:
  "getDirectlyAddressedAgents ''Alex, Clara: what do you all think?''
     (filter (\<lambda>nm. nm \<in> set (map fst thinkTank)) defaultAgentSequence) \<noteq> [] \<and>
   determineRespondingAgentsBy selectAgents thinkTank ''Alex, Clara: what do you all think?''
     newContext (\<lambda>n. 0) =
     Inr ([''Analyst Alex'', ''Curious Clara''], newContext\<lparr>directlyAddressed := True\<rparr>, \<lambda>n. 0)"
proof -
  have a: "filter (addressed (toLowerCase ''Alex, Clara: what do you all think?''))
             (filter (\<lambda>nm. nm \<in> set (map fst thinkTank)) defaultAgentSequence) =
           [''Analyst Alex'', ''Curious Clara'']"
    by code_simp
  then have h: "getDirectlyAddressedAgents ''Alex, Clara: what do you all think?''
     (filter (\<lambda>nm. nm \<in> set (map fst thinkTank)) defaultAgentSequence) \<noteq> []"
    by (simp add: getDirectlyAddressedAgents_def)
  from determineRespondingAgents_addressed [OF h] a h show ?thesis
    by simp
qed

section \<open>The endpoint's error responses\<close>

text \<open>
  C8. Every error response of the endpoint should carry a conversation with one entry by
  the system. The responses after a timeout, a failure of the processing and an
  unexpected error do; the rejection of a request without a message does not: it has the
  status 400, an error text and details, and no conversation.
\<close>

theorem invalidRequest_without_conversation:
  "fst (multiAgentChat rts g now \<lparr>requestMessage = Missing, requestSessionId = None\<rparr> st) =
     invalidRequest \<and>
   status invalidRequest = 400 \<and> conversation invalidRequest = None \<and>
   conversation timeoutResponse \<noteq> None \<and>
   conversation (processingFailed e) \<noteq> None \<and>
   conversation (unexpectedError e) \<noteq> None"
  by (simp add: multiAgentChat_def invalidRequest_def timeoutResponse_def processingFailed_def
      unexpectedError_def)

end
